theory Spec2Isabelle
  imports Complex_Main
begin

section \<open>Data model\<close>

text \<open>
  The entities of \<^verbatim>\<open>src/kyc/entities/kyc-verification.entity.ts\<close> and
  \<^verbatim>\<open>src/kyc/entities/kyc-audit-log.entity.ts\<close>. A \<^verbatim>\<open>Date\<close> is its number of
  milliseconds since the epoch (an \<open>int\<close>), a nullable column is an \<open>option\<close>, a USD
  amount is a \<open>real\<close>. The columns \<^verbatim>\<open>createdAt\<close> and \<^verbatim>\<open>updatedAt\<close> are filled by the
  database and read by no operation below; they are left out. An operation that reads
  the clock takes the instant \<open>now\<close> as an argument, and all its clock reads are that
  instant. The repository calls themselves succeed; what can fail is a provider call (its
  exception is a result) and the write of an audit entry (swallowed by \<^verbatim>\<open>audit\<close>).
  \<^verbatim>\<open>findOne\<close> returns the first matching row in the order of the table.
\<close>

datatype KycStatus = PENDING | UNDER_REVIEW | APPROVED | REJECTED | EXPIRED | REQUIRES_ACTION

datatype KycLevel = NONE | BASIC | ENHANCED

datatype KycProvider = PERSONA | ONFIDO

text \<open>The numeric value of the enum \<^verbatim>\<open>KycLevel\<close> (NONE = 0, BASIC = 1, ENHANCED = 2).\<close>

fun level_num :: "KycLevel \<Rightarrow> nat" where
  "level_num NONE = 0"
| "level_num BASIC = 1"
| "level_num ENHANCED = 2"

fun KYC_MONTHLY_LIMITS :: "KycLevel \<Rightarrow> real option" where
  "KYC_MONTHLY_LIMITS NONE = Some 1000"
| "KYC_MONTHLY_LIMITS BASIC = Some 10000"
| "KYC_MONTHLY_LIMITS ENHANCED = None"

type_synonym metadata = "(string \<times> string) list"

record KycVerification =
  id_pk :: string
  userId :: string
  level :: KycLevel
  status :: KycStatus
  provider :: KycProvider
  verificationId :: "string option"
  inquiryId :: "string option"
  sessionToken :: "string option"
  approvedAt :: "int option"
  expiresAt :: "int option"
  rejectionReason :: "string option"
  providerMetadata :: metadata
  attemptCount :: nat

datatype KycAuditAction =
  A_INITIATED | A_DOCUMENT_SUBMITTED | A_STATUS_CHANGED | A_LEVEL_UPGRADED
  | A_LEVEL_DOWNGRADED | A_EXPIRED | A_RENEWAL_STARTED | A_WEBHOOK_RECEIVED
  | A_LIMIT_CHECKED | A_LIMIT_EXCEEDED

datatype canonical_status = approved | declined | needs_review | pending

text \<open>
  The \<^verbatim>\<open>details\<close> object of an audit entry, one constructor for each object literal the
  service passes to \<^verbatim>\<open>audit\<close>, with the fields in the order of the source.
\<close>

datatype audit_details =
  InitiatedDetails KycLevel KycProvider nat
  | PersonaWebhookDetails string canonical_status
  | StatusChangedDetails KycStatus KycStatus string
  | ManualReviewDetails string KycStatus "string option"
  | LimitDetails KycLevel "real option" real real
  | ExpiredDetails "int option" KycLevel

record KycAuditLog =
  audit_userId :: string
  audit_verificationId :: "string option"
  action :: KycAuditAction
  details :: audit_details
  ipAddress :: "string option"

text \<open>
  The events of \<^verbatim>\<open>KYC_EVENTS\<close> with their payloads: INITIATED (userId, level,
  verificationId), APPROVED (userId, level, verificationId, expiresAt when the webhook path
  emits it, manual), LEVEL_CHANGED (userId, newLevel), REJECTED (userId, level, reason),
  EXPIRED (userId, level, verificationId).
\<close>

datatype kyc_event =
  EV_INITIATED string KycLevel string
  | EV_APPROVED string KycLevel string "int option" bool
  | EV_LEVEL_CHANGED string KycLevel
  | EV_REJECTED string KycLevel "string option"
  | EV_EXPIRED string KycLevel string

text \<open>Outbound calls to the two provider clients, in the order they are issued.\<close>

datatype provider_call =
  PersonaCreateInquiry string KycLevel "string option"
  | PersonaResumeInquiry string
  | OnfidoCreateApplicantSession string

text \<open>
  The persistent state: the two tables, the events handed to the emitter and the
  provider calls made so far.
\<close>

record kyc_state =
  kycRepo :: "KycVerification list"
  auditRepo :: "KycAuditLog list"
  emitted :: "kyc_event list"
  outbound :: "provider_call list"

section \<open>Exceptions\<close>

text \<open>
  The messages of the exceptions the service and the providers throw. A provider call
  fails either with a non-2xx answer (\<^verbatim>\<open>BadRequestException\<close> with the provider's
  message) or because \<^verbatim>\<open>fetch\<close> itself rejects (network error, 15 s timeout).
\<close>

datatype message =
  CannotInitiateLevel0
  | PrerequisiteRequired KycLevel KycLevel
  | NoActiveInquiry
  | InvalidWebhookSignature
  | InvalidPersonaPayload
  | MonthlyLimitReached "real option"
  | PersonaApiError string
  | OnfidoApiError string

datatype exn =
  BadRequestException message
  | ForbiddenException message
  | EntityNotFoundError
  | FetchFailed string

datatype provider_error = ApiError string | CallFailed string

fun persona_exn :: "provider_error \<Rightarrow> exn" where
  "persona_exn (ApiError m) = BadRequestException (PersonaApiError m)"
| "persona_exn (CallFailed m) = FetchFailed m"

fun onfido_exn :: "provider_error \<Rightarrow> exn" where
  "onfido_exn (ApiError m) = BadRequestException (OnfidoApiError m)"
| "onfido_exn (CallFailed m) = FetchFailed m"

text \<open>
  The error taxonomy of the specification, read off the exceptions of the source: a
  policy error is the unmet prerequisite of \<^verbatim>\<open>startKyc\<close> or the exceeded limit of
  \<^verbatim>\<open>checkMonthlyLimit\<close>.
\<close>

fun is_PolicyError :: "exn \<Rightarrow> bool" where
  "is_PolicyError (BadRequestException (PrerequisiteRequired l p)) = True"
| "is_PolicyError (ForbiddenException (MonthlyLimitReached l)) = True"
| "is_PolicyError e = False"

section \<open>Environment\<close>

text \<open>
  What the service does not decide itself: whether the audit table accepts a write, what
  the providers answer, and the HMAC-SHA256 of the crypto library (key, then message,
  giving the hex digest).
\<close>

record kyc_env =
  auditStoreUp :: bool
  persona_inquiries :: "string \<Rightarrow> KycLevel \<Rightarrow> string option \<Rightarrow> provider_error + (string \<times> string)"
  persona_resume :: "string \<Rightarrow> provider_error + string"
  onfido_sessions :: "string \<Rightarrow> provider_error + (string \<times> string \<times> string)"
  hmac_sha256_hex :: "string \<Rightarrow> string \<Rightarrow> string"
  webhookSecret :: string

section \<open>Repository and helper operations\<close>

text \<open>\<^verbatim>\<open>kycRepo.update(id, updates)\<close>: every row with that primary key takes the updates.\<close>

definition repo_update :: "string \<Rightarrow> (KycVerification \<Rightarrow> KycVerification) \<Rightarrow> kyc_state \<Rightarrow> kyc_state" where
  "repo_update i f s = s\<lparr>kycRepo := map (\<lambda>r. if id_pk r = i then f r else r) (kycRepo s)\<rparr>"

text \<open>\<^verbatim>\<open>kycRepo.delete(id)\<close>.\<close>

definition repo_delete :: "string \<Rightarrow> kyc_state \<Rightarrow> kyc_state" where
  "repo_delete i s = s\<lparr>kycRepo := filter (\<lambda>r. id_pk r \<noteq> i) (kycRepo s)\<rparr>"

text \<open>\<^verbatim>\<open>kycRepo.findOne({ where: { id } })\<close>.\<close>

definition find_by_id :: "string \<Rightarrow> kyc_state \<Rightarrow> KycVerification option" where
  "find_by_id i s = find (\<lambda>r. id_pk r = i) (kycRepo s)"

text \<open>
  \<^verbatim>\<open>audit\<close>: the entry is saved; when the save throws, the error is logged and nothing
  else happens.
\<close>

definition audit ::
  "kyc_env \<Rightarrow> string \<Rightarrow> string option \<Rightarrow> KycAuditAction \<Rightarrow> audit_details \<Rightarrow> string option
     \<Rightarrow> kyc_state \<Rightarrow> kyc_state" where
  "audit env u v a d ip s =
     (if auditStoreUp env
      then s\<lparr>auditRepo := auditRepo s @
             [\<lparr>audit_userId = u, audit_verificationId = v, action = a, details = d,
               ipAddress = ip\<rparr>]\<rparr>
      else s)"

definition emit :: "kyc_event \<Rightarrow> kyc_state \<Rightarrow> kyc_state" where
  "emit e s = s\<lparr>emitted := emitted s @ [e]\<rparr>"

text \<open>\<^verbatim>\<open>Array.prototype.join\<close> on strings, and \<^verbatim>\<open>a || b\<close> on strings (only \<^verbatim>\<open>''\<close> is falsy).\<close>

fun join :: "string \<Rightarrow> string list \<Rightarrow> string" where
  "join sep [] = []"
| "join sep [x] = x"
| "join sep (x # y # ys) = x @ sep @ join sep (y # ys)"

definition js_or :: "string \<Rightarrow> string \<Rightarrow> string" where
  "js_or a b = (if a = [] then b else a)"

text \<open>1 year in milliseconds.\<close>

definition VERIFICATION_TTL_MS :: int where
  "VERIFICATION_TTL_MS = 365 * 24 * 60 * 60 * 1000"

section \<open>Core result application\<close>

record VerificationResult =
  r_status :: canonical_status
  r_verificationId :: string
  declinedReasons :: "string list"
  r_providerMetadata :: metadata

text \<open>
  The \<^verbatim>\<open>updates\<close> object of \<^verbatim>\<open>applyVerificationResult\<close>, as the change it makes to a row.
  Both clock reads of the \<^verbatim>\<open>approved\<close> branch are the instant \<open>now\<close>.
\<close>

definition result_updates :: "int \<Rightarrow> VerificationResult \<Rightarrow> KycVerification \<Rightarrow> KycVerification" where
  "result_updates now result r =
     (let u = r\<lparr>verificationId := Some (r_verificationId result),
                providerMetadata := r_providerMetadata result\<rparr>
      in case r_status result of
           approved \<Rightarrow> u\<lparr>status := APPROVED, approvedAt := Some now,
                          expiresAt := Some (now + VERIFICATION_TTL_MS),
                          rejectionReason := None\<rparr>
         | declined \<Rightarrow> u\<lparr>status := REJECTED,
                          rejectionReason :=
                            Some (js_or (join ''; '' (declinedReasons result))
                                    ''Verification declined'')\<rparr>
         | needs_review \<Rightarrow> u\<lparr>status := UNDER_REVIEW\<rparr>
         | pending \<Rightarrow> u\<lparr>status := PENDING\<rparr>)"

definition applyVerificationResult ::
  "kyc_env \<Rightarrow> int \<Rightarrow> KycVerification \<Rightarrow> VerificationResult \<Rightarrow> kyc_state \<Rightarrow> kyc_state" where
  "applyVerificationResult env now verification result s =
     (let previousStatus = status verification;
          updated = result_updates now result verification;
          s1 = repo_update (id_pk verification) (result_updates now result) s;
          s2 = audit env (userId verification) (Some (id_pk verification)) A_STATUS_CHANGED
                 (StatusChangedDetails previousStatus (status updated) (r_verificationId result))
                 None s1
      in if status updated = APPROVED
         then emit (EV_LEVEL_CHANGED (userId verification) (level verification))
                (emit (EV_APPROVED (userId verification) (level verification)
                         (id_pk verification) (expiresAt updated) False) s2)
         else if status updated = REJECTED
         then emit (EV_REJECTED (userId verification) (level verification)
                      (rejectionReason updated)) s2
         else s2)"

section \<open>Manual review\<close>

record ManualReviewDto =
  reviewedBy :: string
  m_status :: KycStatus
  m_notes :: "string option"

definition review_updates :: "int \<Rightarrow> ManualReviewDto \<Rightarrow> KycVerification \<Rightarrow> KycVerification" where
  "review_updates now dto r =
     (let u1 = r\<lparr>status := m_status dto\<rparr>;
          u2 = (if m_status dto = APPROVED
                then u1\<lparr>approvedAt := Some now, expiresAt := Some (now + VERIFICATION_TTL_MS)\<rparr>
                else u1)
      in case m_notes dto of
           None \<Rightarrow> u2
         | Some n \<Rightarrow> if n = [] then u2 else u2\<lparr>rejectionReason := Some n\<rparr>)"

definition manualReview ::
  "kyc_env \<Rightarrow> int \<Rightarrow> string \<Rightarrow> ManualReviewDto \<Rightarrow> string option \<Rightarrow> kyc_state
     \<Rightarrow> (exn + KycVerification) \<times> kyc_state" where
  "manualReview env now vId dto ip s =
     (case find_by_id vId s of
        None \<Rightarrow> (Inl EntityNotFoundError, s)
      | Some verification \<Rightarrow>
          (let s1 = repo_update vId (review_updates now dto) s;
               s2 = audit env (userId verification) (Some vId) A_STATUS_CHANGED
                      (ManualReviewDetails (reviewedBy dto) (m_status dto) (m_notes dto)) ip s1;
               s3 = (if m_status dto = APPROVED
                     then emit (EV_APPROVED (userId verification) (level verification) vId
                                  None True) s2
                     else s2)
           in (Inr (review_updates now dto verification), s3)))"

section \<open>Expiry sweep\<close>

text \<open>
  The rows \<^verbatim>\<open>find\<close> returns for \<^verbatim>\<open>{ status: APPROVED, expiresAt: LessThan(new Date()) }\<close>:
  a null \<^verbatim>\<open>expiresAt\<close> never satisfies the comparison.
\<close>

definition sweep_filter :: "int \<Rightarrow> KycVerification \<Rightarrow> bool" where
  "sweep_filter now v =
     (status v = APPROVED \<and> (case expiresAt v of None \<Rightarrow> False | Some e \<Rightarrow> e < now))"

text \<open>The body of the \<^verbatim>\<open>for\<close> loop, and the loop over the rows found.\<close>

definition expire_one :: "kyc_env \<Rightarrow> KycVerification \<Rightarrow> kyc_state \<Rightarrow> kyc_state" where
  "expire_one env v s =
     emit (EV_EXPIRED (userId v) (level v) (id_pk v))
       (audit env (userId v) (Some (id_pk v)) A_EXPIRED (ExpiredDetails (expiresAt v) (level v)) None
          (repo_update (id_pk v) (\<lambda>r. r\<lparr>status := EXPIRED\<rparr>) s))"

fun expire_loop :: "kyc_env \<Rightarrow> KycVerification list \<Rightarrow> kyc_state \<Rightarrow> kyc_state" where
  "expire_loop env [] s = s"
| "expire_loop env (v # vs) s = expire_loop env vs (expire_one env v s)"

definition expireVerifications :: "kyc_env \<Rightarrow> int \<Rightarrow> kyc_state \<Rightarrow> kyc_state" where
  "expireVerifications env now s =
     expire_loop env (filter (sweep_filter now) (kycRepo s)) s"

section \<open>Status query and limit enforcement\<close>

text \<open>
  \<^verbatim>\<open>kycRepo.find({ where: { userId, status: APPROVED }, order: { level: 'DESC' } })\<close>:
  the user's approved rows, highest level first.
\<close>

definition find_approved :: "string \<Rightarrow> kyc_state \<Rightarrow> KycVerification list" where
  "find_approved u s =
     sort_key (\<lambda>v. - int (level_num (level v)))
       (filter (\<lambda>v. userId v = u \<and> status v = APPROVED) (kycRepo s))"

text \<open>The test \<^verbatim>\<open>!v.expiresAt || v.expiresAt > new Date()\<close>.\<close>

definition unexpired :: "int \<Rightarrow> KycVerification \<Rightarrow> bool" where
  "unexpired now v = (case expiresAt v of None \<Rightarrow> True | Some e \<Rightarrow> e > now)"

text \<open>The \<^verbatim>\<open>for\<close> loop of \<^verbatim>\<open>getActiveKycLevel\<close> with its early return.\<close>

fun first_unexpired :: "int \<Rightarrow> KycVerification list \<Rightarrow> KycLevel" where
  "first_unexpired now [] = NONE"
| "first_unexpired now (v # vs) = (if unexpired now v then level v else first_unexpired now vs)"

definition getActiveKycLevel :: "int \<Rightarrow> string \<Rightarrow> kyc_state \<Rightarrow> KycLevel" where
  "getActiveKycLevel now u s = first_unexpired now (find_approved u s)"

definition getCurrentMonthUsage :: "string \<Rightarrow> real" where
  "getCurrentMonthUsage u = 0"

record KycLimitDto =
  l_level :: KycLevel
  monthlyLimitUsd :: "real option"
  currentMonthUsageUsd :: real
  remainingUsd :: "real option"
  isLimitReached :: bool

definition checkMonthlyLimit ::
  "kyc_env \<Rightarrow> int \<Rightarrow> string \<Rightarrow> real \<Rightarrow> kyc_state \<Rightarrow> (exn + KycLimitDto) \<times> kyc_state" where
  "checkMonthlyLimit env now u requestedAmountUsd s =
     (let lvl = getActiveKycLevel now u s;
          monthlyLimit = KYC_MONTHLY_LIMITS lvl;
          usage = getCurrentMonthUsage u;
          remaining = (case monthlyLimit of None \<Rightarrow> None | Some l \<Rightarrow> Some (l - usage));
          reached = (case monthlyLimit of None \<Rightarrow> False
                     | Some l \<Rightarrow> usage + requestedAmountUsd > l);
          s1 = audit env u None (if reached then A_LIMIT_EXCEEDED else A_LIMIT_CHECKED)
                 (LimitDetails lvl monthlyLimit usage requestedAmountUsd) None s
      in if reached
         then (Inl (ForbiddenException (MonthlyLimitReached monthlyLimit)), s1)
         else (Inr \<lparr>l_level = lvl, monthlyLimitUsd = monthlyLimit,
                    currentMonthUsageUsd = usage, remainingUsd = remaining,
                    isLimitReached = False\<rparr>, s1))"

section \<open>Provider clients\<close>

text \<open>A string in a condition: \<^verbatim>\<open>null\<close>, \<^verbatim>\<open>undefined\<close> and \<^verbatim>\<open>''\<close> are falsy.\<close>

definition truthy :: "string option \<Rightarrow> bool" where
  "truthy x = (case x of None \<Rightarrow> False | Some v \<Rightarrow> v \<noteq> [])"

record PersonaInquirySession =
  ps_inquiryId :: string
  ps_sessionToken :: string
  ps_widgetUrl :: string

definition persona_widget_url :: "string \<Rightarrow> string \<Rightarrow> string" where
  "persona_widget_url iid tok =
     ''https://withpersona.com/verify?inquiry-id='' @ iid @ ''&session-token='' @ tok"

text \<open>
  \<^verbatim>\<open>PersonaProvider.createInquiry\<close>: the redirect URI is sent only when it is truthy; the
  answer's id and session token come back with the widget URL built from them.
\<close>

definition createInquiry ::
  "kyc_env \<Rightarrow> string \<Rightarrow> KycLevel \<Rightarrow> string option \<Rightarrow> kyc_state
     \<Rightarrow> (exn + PersonaInquirySession) \<times> kyc_state" where
  "createInquiry env u lvl redirect s =
     (let uri = (if truthy redirect then redirect else None);
          s1 = s\<lparr>outbound := outbound s @ [PersonaCreateInquiry u lvl uri]\<rparr>
      in case persona_inquiries env u lvl uri of
           Inl e \<Rightarrow> (Inl (persona_exn e), s1)
         | Inr (iid, tok) \<Rightarrow>
             (Inr \<lparr>ps_inquiryId = iid, ps_sessionToken = tok,
                    ps_widgetUrl = persona_widget_url iid tok\<rparr>, s1))"

text \<open>\<^verbatim>\<open>PersonaProvider.resumeInquiry\<close>.\<close>

definition resumeInquiry :: "kyc_env \<Rightarrow> string \<Rightarrow> kyc_state \<Rightarrow> (exn + string) \<times> kyc_state" where
  "resumeInquiry env iid s =
     (let s1 = s\<lparr>outbound := outbound s @ [PersonaResumeInquiry iid]\<rparr>
      in case persona_resume env iid of
           Inl e \<Rightarrow> (Inl (persona_exn e), s1)
         | Inr tok \<Rightarrow> (Inr tok, s1))"

record OnfidoApplicantSession =
  applicantId :: string
  workflowRunId :: string
  sdkToken :: string

text \<open>
  \<^verbatim>\<open>OnfidoProvider.createApplicantSession\<close>: its three requests are one answer of the
  environment (applicant id, workflow run id, SDK token).
\<close>

definition createApplicantSession ::
  "kyc_env \<Rightarrow> string \<Rightarrow> kyc_state \<Rightarrow> (exn + OnfidoApplicantSession) \<times> kyc_state" where
  "createApplicantSession env u s =
     (let s1 = s\<lparr>outbound := outbound s @ [OnfidoCreateApplicantSession u]\<rparr>
      in case onfido_sessions env u of
           Inl e \<Rightarrow> (Inl (onfido_exn e), s1)
         | Inr (app, run, tok) \<Rightarrow>
             (Inr \<lparr>applicantId = app, workflowRunId = run, sdkToken = tok\<rparr>, s1))"

section \<open>Initiating and resuming a verification\<close>

record StartKycDto =
  targetLevel :: KycLevel
  dto_provider :: "KycProvider option"
  redirectUrl :: "string option"

record StartKycResponseDto =
  verificationRecordId :: string
  resp_inquiryId :: string
  resp_sessionToken :: string
  widgetUrl :: string

fun LEVEL_PREREQUISITES :: "KycLevel \<Rightarrow> KycLevel option" where
  "LEVEL_PREREQUISITES NONE = None"
| "LEVEL_PREREQUISITES BASIC = None"
| "LEVEL_PREREQUISITES ENHANCED = Some BASIC"

definition getApprovedVerification :: "string \<Rightarrow> KycLevel \<Rightarrow> kyc_state \<Rightarrow> KycVerification option" where
  "getApprovedVerification u l s =
     find (\<lambda>v. userId v = u \<and> level v = l \<and> status v = APPROVED) (kycRepo s)"

definition getAttemptCount :: "string \<Rightarrow> KycLevel \<Rightarrow> kyc_state \<Rightarrow> nat" where
  "getAttemptCount u l s = length (filter (\<lambda>v. userId v = u \<and> level v = l) (kycRepo s))"

definition resumeKyc ::
  "kyc_env \<Rightarrow> KycVerification \<Rightarrow> kyc_state \<Rightarrow> (exn + StartKycResponseDto) \<times> kyc_state" where
  "resumeKyc env verification s =
     (case inquiryId verification of
        None \<Rightarrow> (Inl (BadRequestException NoActiveInquiry), s)
      | Some iid \<Rightarrow>
          if iid = [] then (Inl (BadRequestException NoActiveInquiry), s)
          else (case resumeInquiry env iid s of
                  (Inl e, s1) \<Rightarrow> (Inl e, s1)
                | (Inr tok, s1) \<Rightarrow>
                    (Inr \<lparr>verificationRecordId = id_pk verification, resp_inquiryId = iid,
                           resp_sessionToken = tok,
                           widgetUrl = persona_widget_url iid tok\<rparr>,
                     repo_update (id_pk verification) (\<lambda>r. r\<lparr>sessionToken := Some tok\<rparr>) s1)))"

text \<open>
  The row \<^verbatim>\<open>kycRepo.save(kycRepo.create({...}))\<close> inserts; \<open>newId\<close> is the primary key
  the database generates for it.
\<close>

definition new_verification :: "string \<Rightarrow> string \<Rightarrow> KycLevel \<Rightarrow> KycProvider \<Rightarrow> nat \<Rightarrow> KycVerification" where
  "new_verification newId u lvl prov attempt =
     \<lparr>id_pk = newId, userId = u, level = lvl, status = PENDING, provider = prov,
      verificationId = None, inquiryId = None, sessionToken = None, approvedAt = None,
      expiresAt = None, rejectionReason = None, providerMetadata = [],
      attemptCount = attempt + 1\<rparr>"

text \<open>What follows the provider call inside the \<^verbatim>\<open>try\<close> block: audit entry and event.\<close>

definition initiated :: "kyc_env \<Rightarrow> string \<Rightarrow> string \<Rightarrow> KycLevel \<Rightarrow> KycProvider \<Rightarrow> nat
     \<Rightarrow> string option \<Rightarrow> kyc_state \<Rightarrow> kyc_state" where
  "initiated env u newId lvl prov attempt ip s =
     emit (EV_INITIATED u lvl newId)
       (audit env u (Some newId) A_INITIATED (InitiatedDetails lvl prov (attempt + 1)) ip s)"

text \<open>
  Lines 98 to 171 of \<^verbatim>\<open>startKyc\<close>: the new row, the provider session, and the
  \<^verbatim>\<open>catch\<close> that deletes the row again when the \<^verbatim>\<open>try\<close> block throws.
\<close>

definition startKyc_create ::
  "kyc_env \<Rightarrow> string \<Rightarrow> StartKycDto \<Rightarrow> string option \<Rightarrow> string \<Rightarrow> kyc_state
     \<Rightarrow> (exn + StartKycResponseDto) \<times> kyc_state" where
  "startKyc_create env u dto ip newId s =
     (let prov = (case dto_provider dto of None \<Rightarrow> PERSONA | Some p \<Rightarrow> p);
          attempt = getAttemptCount u (targetLevel dto) s;
          s1 = s\<lparr>kycRepo := kycRepo s @ [new_verification newId u (targetLevel dto) prov attempt]\<rparr>
      in if prov = PERSONA
         then (case createInquiry env u (targetLevel dto) (redirectUrl dto) s1 of
                 (Inl err, s2) \<Rightarrow> (Inl err, repo_delete newId s2)
               | (Inr session, s2) \<Rightarrow>
                   (Inr \<lparr>verificationRecordId = newId,
                          resp_inquiryId = ps_inquiryId session,
                          resp_sessionToken = ps_sessionToken session,
                          widgetUrl = ps_widgetUrl session\<rparr>,
                    initiated env u newId (targetLevel dto) prov attempt ip
                      (repo_update newId
                         (\<lambda>r. r\<lparr>inquiryId := Some (ps_inquiryId session),
                                 sessionToken := Some (ps_sessionToken session)\<rparr>) s2)))
         else (case createApplicantSession env u s1 of
                 (Inl err, s2) \<Rightarrow> (Inl err, repo_delete newId s2)
               | (Inr session, s2) \<Rightarrow>
                   (Inr \<lparr>verificationRecordId = newId,
                          resp_inquiryId = workflowRunId session,
                          resp_sessionToken = sdkToken session,
                          widgetUrl = []\<rparr>,
                    initiated env u newId (targetLevel dto) prov attempt ip
                      (repo_update newId
                         (\<lambda>r. r\<lparr>inquiryId := Some (workflowRunId session),
                                 sessionToken := Some (sdkToken session),
                                 verificationId := Some (applicantId session)\<rparr>) s2))))"

text \<open>Lines 89 to 96: an existing PENDING row with an inquiry id is resumed.\<close>

definition startKyc_existing ::
  "kyc_env \<Rightarrow> string \<Rightarrow> StartKycDto \<Rightarrow> string option \<Rightarrow> string \<Rightarrow> kyc_state
     \<Rightarrow> (exn + StartKycResponseDto) \<times> kyc_state" where
  "startKyc_existing env u dto ip newId s =
     (case find (\<lambda>v. userId v = u \<and> level v = targetLevel dto \<and> status v = PENDING)
             (kycRepo s) of
        None \<Rightarrow> startKyc_create env u dto ip newId s
      | Some existing \<Rightarrow>
          if truthy (inquiryId existing) then resumeKyc env existing s
          else startKyc_create env u dto ip newId s)"

definition startKyc ::
  "kyc_env \<Rightarrow> string \<Rightarrow> StartKycDto \<Rightarrow> string option \<Rightarrow> string \<Rightarrow> kyc_state
     \<Rightarrow> (exn + StartKycResponseDto) \<times> kyc_state" where
  "startKyc env u dto ip newId s =
     (if targetLevel dto = NONE then (Inl (BadRequestException CannotInitiateLevel0), s)
      else case LEVEL_PREREQUISITES (targetLevel dto) of
             None \<Rightarrow> startKyc_existing env u dto ip newId s
           | Some prereq \<Rightarrow>
               (case getApprovedVerification u prereq s of
                  None \<Rightarrow>
                    (Inl (BadRequestException (PrerequisiteRequired (targetLevel dto) prereq)), s)
                | Some v \<Rightarrow> startKyc_existing env u dto ip newId s))"

section \<open>Persona webhook signature\<close>

text \<open>\<^verbatim>\<open>String.prototype.split\<close> with a one-character separator.\<close>

fun split_on :: "char \<Rightarrow> string \<Rightarrow> string list" where
  "split_on c [] = [[]]"
| "split_on c (x # xs) =
     (if x = c then [] # split_on c xs
      else (case split_on c xs of [] \<Rightarrow> [[x]] | y # ys \<Rightarrow> (x # y) # ys))"

text \<open>
  \<^verbatim>\<open>const [k, v] = part.split('='); return [k, v]\<close>: the value is \<^verbatim>\<open>undefined\<close> (\<open>None\<close>)
  when the part has no \<^verbatim>\<open>=\<close>.
\<close>

definition key_value :: "string \<Rightarrow> string \<times> string option" where
  "key_value part =
     (case split_on CHR ''='' part of
        [] \<Rightarrow> ([], None)
      | [k] \<Rightarrow> (k, None)
      | k # v # rest \<Rightarrow> (k, Some v))"

text \<open>
  \<^verbatim>\<open>Object.fromEntries(entries)[key]\<close>: the last entry with the key wins; a missing
  key and a key bound to \<^verbatim>\<open>undefined\<close> both read as \<^verbatim>\<open>undefined\<close>.
\<close>

definition from_entries_get :: "(string \<times> string option) list \<Rightarrow> string \<Rightarrow> string option" where
  "from_entries_get entries k = (case map_of (rev entries) k of None \<Rightarrow> None | Some v \<Rightarrow> v)"

text \<open>
  \<^verbatim>\<open>parseInt(s, 10)\<close>: leading white space, an optional sign, then decimal digits up to
  the first other character; \<open>None\<close> is \<^verbatim>\<open>NaN\<close> (no digit there). A header value is
  a Latin-1 string, one \<open>char\<close> for each code unit; its white space characters are tab,
  line feed, vertical tab, form feed, carriage return, space and no-break space.
\<close>

definition is_space :: "char \<Rightarrow> bool" where
  "is_space c =
     (c \<in> set [CHR 0x09, CHR 0x0A, CHR 0x0B, CHR 0x0C, CHR 0x0D, CHR '' '', CHR 0xA0])"

definition is_digit :: "char \<Rightarrow> bool" where
  "is_digit c = (48 \<le> (of_char c :: nat) \<and> (of_char c :: nat) \<le> 57)"

definition digits_value :: "string \<Rightarrow> nat" where
  "digits_value ds = foldl (\<lambda>acc c. 10 * acc + ((of_char c :: nat) - 48)) 0 ds"

definition parseInt10 :: "string \<Rightarrow> int option" where
  "parseInt10 str =
     (let t = dropWhile is_space str;
          (neg, u) = (case t of
                        c # cs \<Rightarrow> if c = CHR ''-'' then (True, cs)
                                   else if c = CHR ''+'' then (False, cs) else (False, t)
                      | [] \<Rightarrow> (False, t));
          ds = takeWhile is_digit u
      in if ds = [] then None
         else Some (if neg then - int (digits_value ds) else int (digits_value ds)))"

text \<open>
  \<^verbatim>\<open>Buffer.from(s, 'hex')\<close>: pairs of hex digits (\<^verbatim>\<open>0-9\<close>, \<^verbatim>\<open>a-f\<close>, \<^verbatim>\<open>A-F\<close>, by
  character code) become bytes; decoding stops at the first
  pair that is not two hex digits, and a trailing single character is dropped.
\<close>

definition hex_digit :: "char \<Rightarrow> nat option" where
  "hex_digit c =
     (let n = (of_char c :: nat)
      in if 48 \<le> n \<and> n \<le> 57 then Some (n - 48)
         else if 97 \<le> n \<and> n \<le> 102 then Some (n - 87)
         else if 65 \<le> n \<and> n \<le> 70 then Some (n - 55)
         else None)"

fun hex_decode :: "string \<Rightarrow> nat list" where
  "hex_decode (a # b # cs) =
     (case (hex_digit a, hex_digit b) of
        (Some x, Some y) \<Rightarrow> (16 * x + y) # hex_decode cs
      | _ \<Rightarrow> [])"
| "hex_decode cs = []"

text \<open>\<^verbatim>\<open>crypto.timingSafeEqual\<close>: throws (\<open>None\<close>) when the lengths differ.\<close>

definition timingSafeEqual :: "nat list \<Rightarrow> nat list \<Rightarrow> bool option" where
  "timingSafeEqual a b = (if length a \<noteq> length b then None else Some (a = b))"

text \<open>
  The replay test: \<^verbatim>\<open>Date.now() / 1000 - parseInt(timestamp, 10) > 300\<close>, false when the
  timestamp parses to \<^verbatim>\<open>NaN\<close>. The clock is a whole number of milliseconds, so the
  quotient is at least a thousandth away from every integer it differs from, and the
  comparison of the doubles comes out as the comparison of the exact values does.
\<close>

definition too_old :: "int \<Rightarrow> string \<Rightarrow> bool" where
  "too_old now ts =
     (case parseInt10 ts of
        None \<Rightarrow> False
      | Some t \<Rightarrow> real_of_int now / 1000 - real_of_int t > 300)"

text \<open>
  \<^verbatim>\<open>PersonaProvider.verifyWebhookSignature\<close>; every exception inside the \<^verbatim>\<open>try\<close> block
  gives \<^verbatim>\<open>false\<close>.
\<close>

definition verifyWebhookSignature :: "kyc_env \<Rightarrow> int \<Rightarrow> string \<Rightarrow> string \<Rightarrow> bool" where
  "verifyWebhookSignature env now rawBody signatureHeader =
     (let parts = map key_value (split_on CHR '','' signatureHeader);
          timestamp = from_entries_get parts ''t'';
          receivedSig = from_entries_get parts ''v1''
      in case (timestamp, receivedSig) of
           (Some ts, Some sg) \<Rightarrow>
             if ts = [] \<or> sg = [] then False
             else if too_old now ts then False
             else (let signedPayload = ts @ ''.'' @ rawBody;
                       expected = hmac_sha256_hex env (webhookSecret env) signedPayload
                   in case timingSafeEqual (hex_decode expected) (hex_decode sg) of
                        None \<Rightarrow> False
                      | Some b \<Rightarrow> b)
         | _ \<Rightarrow> False)"

record PersonaVerificationResult =
  pr_inquiryId :: string
  pr_verificationId :: string
  pr_status :: canonical_status
  pr_declinedReasons :: "string list"
  referenceId :: "string option"
  completedAt :: "string option"
  pr_providerMetadata :: metadata

text \<open>
  \<^verbatim>\<open>processPersonaWebhook\<close>. The JSON payload is given by what \<^verbatim>\<open>parseWebhookPayload\<close>
  makes of it: \<open>None\<close> when the envelope holds no inquiry (it throws), else the mapped
  result.
\<close>

definition processPersonaWebhook ::
  "kyc_env \<Rightarrow> int \<Rightarrow> string \<Rightarrow> string \<Rightarrow> PersonaVerificationResult option \<Rightarrow> kyc_state
     \<Rightarrow> (exn + unit) \<times> kyc_state" where
  "processPersonaWebhook env now rawBody signature payload s =
     (if \<not> verifyWebhookSignature env now rawBody signature
      then (Inl (BadRequestException InvalidWebhookSignature), s)
      else case payload of
             None \<Rightarrow> (Inl (BadRequestException InvalidPersonaPayload), s)
           | Some result \<Rightarrow>
               (let s1 = audit env (case referenceId result of None \<Rightarrow> ''unknown'' | Some u \<Rightarrow> u)
                           None A_WEBHOOK_RECEIVED
                           (PersonaWebhookDetails (pr_inquiryId result) (pr_status result)) None s
                in case find (\<lambda>v. inquiryId v = Some (pr_inquiryId result)) (kycRepo s1) of
                     None \<Rightarrow> (Inr (), s1)
                   | Some verification \<Rightarrow>
                       (Inr (),
                        applyVerificationResult env now verification
                          \<lparr>r_status = pr_status result,
                           r_verificationId = pr_verificationId result,
                           declinedReasons = pr_declinedReasons result,
                           r_providerMetadata = pr_providerMetadata result\<rparr> s1)))"

section \<open>Sample data\<close>

definition sample_env :: kyc_env where
  "sample_env =
     \<lparr>auditStoreUp = True,
      persona_inquiries = (\<lambda>u l r. Inr (''inq_9'', ''tok_9'')),
      persona_resume = (\<lambda>i. Inr ''tok_2''),
      onfido_sessions = (\<lambda>u. Inr (''app_1'', ''wfr_1'', ''sdk_1'')),
      hmac_sha256_hex = (\<lambda>k m. ''c0ffee''),
      webhookSecret = ''whsec''\<rparr>"

definition sample_row :: "string \<Rightarrow> KycLevel \<Rightarrow> KycStatus \<Rightarrow> int option \<Rightarrow> KycVerification" where
  "sample_row i lvl st ex =
     \<lparr>id_pk = i, userId = ''u1'', level = lvl, status = st, provider = PERSONA,
      verificationId = None, inquiryId = Some ''inq_1'', sessionToken = Some ''tok_1'',
      approvedAt = None, expiresAt = ex, rejectionReason = None, providerMetadata = [],
      attemptCount = 1\<rparr>"

definition sample_dto :: "KycLevel \<Rightarrow> KycProvider option \<Rightarrow> StartKycDto" where
  "sample_dto l p = \<lparr>targetLevel = l, dto_provider = p, redirectUrl = None\<rparr>"

definition state_of :: "KycVerification list \<Rightarrow> kyc_state" where
  "state_of rs = \<lparr>kycRepo = rs, auditRepo = [], emitted = [], outbound = []\<rparr>"

definition sample_result :: "canonical_status \<Rightarrow> string list \<Rightarrow> VerificationResult" where
  "sample_result st reasons =
     \<lparr>r_status = st, r_verificationId = ''ver_1'', declinedReasons = reasons,
      r_providerMetadata = []\<rparr>"

section \<open>Rows, updates and lookups\<close>

lemma find_map_update:
  assumes "\<And>r. id_pk (f r) = id_pk r"
  shows "find (\<lambda>r. id_pk r = i) (map (\<lambda>r. if id_pk r = j then f r else r) rs)
     = map_option (\<lambda>r. if id_pk r = j then f r else r) (find (\<lambda>r. id_pk r = i) rs)"
  using assms by (induction rs) auto

lemma find_map_same_id:
  assumes "\<And>r. id_pk (g r) = id_pk r"
  shows "find (\<lambda>r. id_pk r = i) (map g rs) = map_option g (find (\<lambda>r. id_pk r = i) rs)"
  using assms by (induction rs) auto

lemma find_by_id_repo_update:
  assumes "\<And>r. id_pk (f r) = id_pk r"
  shows "find_by_id i (repo_update j f s)
     = map_option (\<lambda>r. if id_pk r = j then f r else r) (find_by_id i s)"
  unfolding find_by_id_def repo_update_def using assms by (simp add: find_map_update)

lemma find_by_id_id: "find_by_id i s = Some r \<Longrightarrow> id_pk r = i"
  by (auto simp: find_by_id_def find_Some_iff)

lemma kycRepo_audit [simp]: "kycRepo (audit env u v a d ip s) = kycRepo s"
  by (simp add: audit_def)

lemma kycRepo_emit [simp]: "kycRepo (emit e s) = kycRepo s"
  by (simp add: emit_def)

lemma find_by_id_audit [simp]: "find_by_id i (audit env u v a d ip s) = find_by_id i s"
  by (simp add: find_by_id_def)

lemma find_by_id_emit [simp]: "find_by_id i (emit e s) = find_by_id i s"
  by (simp add: find_by_id_def)

lemma distinct_id_mem:
  assumes "distinct (map id_pk rs)" "r \<in> set rs"
  shows "id_pk r \<in> id_pk ` {v \<in> set rs. P v} \<longleftrightarrow> P r"
proof
  assume "id_pk r \<in> id_pk ` {v \<in> set rs. P v}"
  then obtain v where v: "v \<in> set rs" "P v" "id_pk v = id_pk r" by auto
  from assms(1) v(1) assms(2) v(3) have "v = r"
    by (meson distinct_map inj_onD)
  with v(2) show "P r" by simp
next
  assume "P r" with assms(2) show "id_pk r \<in> id_pk ` {v \<in> set rs. P v}" by auto
qed

section \<open>Applying a provider result\<close>

lemma id_pk_result_updates [simp]: "id_pk (result_updates now res r) = id_pk r"
  by (simp add: result_updates_def Let_def split: canonical_status.splits)

lemma status_result_updates: "status (result_updates now res r) \<noteq> EXPIRED"
  by (simp add: result_updates_def Let_def split: canonical_status.splits)

lemma kycRepo_applyVerificationResult:
  "kycRepo (applyVerificationResult env now v res s)
     = kycRepo (repo_update (id_pk v) (result_updates now res) s)"
  by (simp add: applyVerificationResult_def Let_def)

lemma find_by_id_applyVerificationResult:
  "find_by_id i (applyVerificationResult env now v res s)
     = map_option (\<lambda>r. if id_pk r = id_pk v then result_updates now res r else r) (find_by_id i s)"
proof -
  have "find_by_id i (applyVerificationResult env now v res s)
          = find_by_id i (repo_update (id_pk v) (result_updates now res) s)"
    by (simp add: find_by_id_def kycRepo_applyVerificationResult)
  then show ?thesis by (simp add: find_by_id_repo_update)
qed

text \<open>
  Claim C3, as the code has it. For the stored row of the verification,
  \<^verbatim>\<open>applyVerificationResult\<close> maps the canonical status as follows: approved sets status
  APPROVED with approvedAt = now and expiresAt = now + 365 days; declined sets status
  REJECTED with rejectionReason the declined reasons joined with \<^verbatim>\<open>'; '\<close>, or the default
  string \<^verbatim>\<open>'Verification declined'\<close> when the joined string is empty (an empty list, and
  also the list holding one empty reason); needs_review sets UNDER_REVIEW; pending sets
  PENDING.
\<close>

theorem applyVerificationResult_mapping:
  assumes "find_by_id (id_pk v) s = Some r"
  shows "\<exists>r'. find_by_id (id_pk v) (applyVerificationResult env now v res s) = Some r' \<and>
           (r_status res = approved \<longrightarrow>
              status r' = APPROVED \<and> approvedAt r' = Some now \<and>
              expiresAt r' = Some (now + 365 * 24 * 60 * 60 * 1000)) \<and>
           (r_status res = declined \<longrightarrow>
              status r' = REJECTED \<and>
              rejectionReason r' =
                Some (if join ''; '' (declinedReasons res) = []
                      then ''Verification declined''
                      else join ''; '' (declinedReasons res))) \<and>
           (r_status res = needs_review \<longrightarrow> status r' = UNDER_REVIEW) \<and>
           (r_status res = pending \<longrightarrow> status r' = PENDING)"
proof -
  have id: "id_pk r = id_pk v" using assms by (rule find_by_id_id)
  have "find_by_id (id_pk v) (applyVerificationResult env now v res s)
          = Some (result_updates now res r)"
    using assms id by (simp add: find_by_id_applyVerificationResult)
  then show ?thesis
    by (cases "r_status res")
       (simp_all add: result_updates_def Let_def js_or_def VERIFICATION_TTL_MS_def)
qed

theorem applyVerificationResult_mapping_witness:
  "find_by_id (id_pk (sample_row ''v1'' BASIC PENDING None))
      (state_of [sample_row ''v1'' BASIC PENDING None])
     = Some (sample_row ''v1'' BASIC PENDING None) \<and>
   (\<exists>r'. find_by_id ''v1''
            (applyVerificationResult sample_env 1000 (sample_row ''v1'' BASIC PENDING None)
               (sample_result approved [])
               (state_of [sample_row ''v1'' BASIC PENDING None])) = Some r' \<and>
          status r' = APPROVED \<and> approvedAt r' = Some 1000 \<and>
          expiresAt r' = Some 31536001000) \<and>
   (\<exists>r'. find_by_id ''v1''
            (applyVerificationResult sample_env 1000 (sample_row ''v1'' BASIC PENDING None)
               (sample_result declined [''doc'', ''selfie''])
               (state_of [sample_row ''v1'' BASIC PENDING None])) = Some r' \<and>
          status r' = REJECTED \<and> rejectionReason r' = Some ''doc; selfie'') \<and>
   (\<exists>r'. find_by_id ''v1''
            (applyVerificationResult sample_env 1000 (sample_row ''v1'' BASIC PENDING None)
               (sample_result declined [])
               (state_of [sample_row ''v1'' BASIC PENDING None])) = Some r' \<and>
          status r' = REJECTED \<and> rejectionReason r' = Some ''Verification declined'') \<and>
   (\<exists>r'. find_by_id ''v1''
            (applyVerificationResult sample_env 1000 (sample_row ''v1'' BASIC PENDING None)
               (sample_result needs_review [])
               (state_of [sample_row ''v1'' BASIC PENDING None])) = Some r' \<and>
          status r' = UNDER_REVIEW) \<and>
   (\<exists>r'. find_by_id ''v1''
            (applyVerificationResult sample_env 1000 (sample_row ''v1'' BASIC PENDING None)
               (sample_result pending [])
               (state_of [sample_row ''v1'' BASIC PENDING None])) = Some r' \<and>
          status r' = PENDING)"
proof -
  have h: "find_by_id (id_pk (sample_row ''v1'' BASIC PENDING None))
             (state_of [sample_row ''v1'' BASIC PENDING None])
           = Some (sample_row ''v1'' BASIC PENDING None)"
    by (simp add: find_by_id_def state_of_def sample_row_def)
  show ?thesis
    using h
      applyVerificationResult_mapping [OF h, of sample_env 1000 "sample_result approved []"]
      applyVerificationResult_mapping [OF h, of sample_env 1000
        "sample_result declined [''doc'', ''selfie'']"]
      applyVerificationResult_mapping [OF h, of sample_env 1000 "sample_result declined []"]
      applyVerificationResult_mapping [OF h, of sample_env 1000 "sample_result needs_review []"]
      applyVerificationResult_mapping [OF h, of sample_env 1000 "sample_result pending []"]
    by (simp add: sample_result_def sample_row_def)
qed

text \<open>
  The claim as it was written gives the joined reasons for every non-empty list. A
  declined result whose only reason is the empty string has a non-empty list, the joined
  string is empty, and the stored reason is the default string.
\<close>

theorem declined_reason_counterexample:
  "declinedReasons (sample_result declined ['''']) \<noteq> [] \<and>
   join ''; '' (declinedReasons (sample_result declined [''''])) = [] \<and>
   map rejectionReason
     (kycRepo (applyVerificationResult sample_env 1000 (sample_row ''v1'' BASIC PENDING None)
                 (sample_result declined [''''])
                 (state_of [sample_row ''v1'' BASIC PENDING None])))
     = [Some ''Verification declined'']"
  by (simp add: applyVerificationResult_def Let_def repo_update_def result_updates_def
        js_or_def audit_def emit_def sample_result_def sample_row_def state_of_def sample_env_def)

section \<open>The expiry sweep\<close>

lemma sweep_filter_iff:
  "sweep_filter now r \<longleftrightarrow> status r = APPROVED \<and> (\<exists>e. expiresAt r = Some e \<and> e < now)"
  by (simp add: sweep_filter_def split: option.splits)

lemma kycRepo_expire_one:
  "kycRepo (expire_one env v s)
     = map (\<lambda>r. if id_pk r = id_pk v then r\<lparr>status := EXPIRED\<rparr> else r) (kycRepo s)"
  by (simp add: expire_one_def repo_update_def)

lemma kycRepo_expire_loop:
  "kycRepo (expire_loop env vs s)
     = map (\<lambda>r. if id_pk r \<in> id_pk ` set vs then r\<lparr>status := EXPIRED\<rparr> else r) (kycRepo s)"
proof (induction vs arbitrary: s)
  case Nil
  then show ?case by simp
next
  case (Cons v vs)
  show ?case
    by (simp add: Cons.IH kycRepo_expire_one comp_def)
qed

lemma auditRepo_expire_loop:
  "auditRepo (expire_loop env vs s)
     = auditRepo s @
       (if auditStoreUp env
        then map (\<lambda>v. \<lparr>audit_userId = userId v, audit_verificationId = Some (id_pk v),
                        action = A_EXPIRED, details = ExpiredDetails (expiresAt v) (level v),
                        ipAddress = None\<rparr>) vs
        else [])"
  by (induction vs arbitrary: s)
     (simp_all add: expire_one_def audit_def emit_def repo_update_def)

lemma emitted_expire_loop:
  "emitted (expire_loop env vs s)
     = emitted s @ map (\<lambda>v. EV_EXPIRED (userId v) (level v) (id_pk v)) vs"
  by (induction vs arbitrary: s)
     (simp_all add: expire_one_def audit_def emit_def repo_update_def)

lemma kycRepo_expireVerifications:
  assumes "distinct (map id_pk (kycRepo s))"
  shows "kycRepo (expireVerifications env now s)
     = map (\<lambda>r. if sweep_filter now r then r\<lparr>status := EXPIRED\<rparr> else r) (kycRepo s)"
  unfolding expireVerifications_def kycRepo_expire_loop
  by (rule map_cong) (simp_all add: distinct_id_mem [OF assms])

lemma sweep_filter_after:
  "filter (sweep_filter now)
     (map (\<lambda>r. if sweep_filter now r then r\<lparr>status := EXPIRED\<rparr> else r) rs) = []"
  by (induction rs) (auto simp: sweep_filter_def)

lemma expireVerifications_twice:
  assumes "distinct (map id_pk (kycRepo s))"
  shows "expireVerifications env now (expireVerifications env now s)
     = expireVerifications env now s"
proof -
  have "filter (sweep_filter now) (kycRepo (expireVerifications env now s)) = []"
    by (simp add: kycRepo_expireVerifications [OF assms] sweep_filter_after)
  then show ?thesis
    by (simp add: expireVerifications_def [of env now "expireVerifications env now s"])
qed

lemma find_by_id_expireVerifications:
  assumes "distinct (map id_pk (kycRepo s))"
  shows "find_by_id i (expireVerifications env now s)
     = map_option (\<lambda>r. if sweep_filter now r then r\<lparr>status := EXPIRED\<rparr> else r) (find_by_id i s)"
  unfolding find_by_id_def kycRepo_expireVerifications [OF assms]
  by (rule find_map_same_id) simp

text \<open>
  Claim C1, as the code has it. In a table whose primary keys are distinct, the expiry
  sweep leaves every row whose status is not APPROVED exactly as it is: a row that is
  EXPIRED or REJECTED is not changed by the sweep, and the sweep moves no row from PENDING
  to EXPIRED. \<^verbatim>\<open>applyVerificationResult\<close> never writes EXPIRED, so it moves no row from
  PENDING (or any other status) to EXPIRED. Nothing is said here for the status that
  \<^verbatim>\<open>applyVerificationResult\<close> and \<^verbatim>\<open>manualReview\<close> write over a row that is EXPIRED or
  REJECTED, nor for \<^verbatim>\<open>manualReview\<close> on a PENDING row: both write the status they are
  given whatever the row's status is.
\<close>

theorem sweep_keeps_terminal_rows:
  assumes "distinct (map id_pk (kycRepo s))" and "find_by_id i s = Some r"
  shows "(status r \<noteq> APPROVED \<longrightarrow> find_by_id i (expireVerifications env now s) = Some r) \<and>
         (status r \<noteq> EXPIRED \<longrightarrow>
            (\<exists>r'. find_by_id i (applyVerificationResult env now v res s) = Some r' \<and>
                   status r' \<noteq> EXPIRED))"
proof (intro conjI impI)
  assume "status r \<noteq> APPROVED"
  then have "\<not> sweep_filter now r" by (simp add: sweep_filter_def)
  then show "find_by_id i (expireVerifications env now s) = Some r"
    using assms by (simp add: find_by_id_expireVerifications)
next
  assume "status r \<noteq> EXPIRED"
  then show "\<exists>r'. find_by_id i (applyVerificationResult env now v res s) = Some r' \<and>
                   status r' \<noteq> EXPIRED"
    using assms(2) by (simp add: find_by_id_applyVerificationResult status_result_updates)
qed

theorem sweep_keeps_terminal_rows_witness:
  "distinct (map id_pk (kycRepo (state_of [sample_row ''v1'' BASIC REJECTED None,
                                            sample_row ''v2'' BASIC APPROVED (Some 5)]))) \<and>
   find_by_id ''v1'' (state_of [sample_row ''v1'' BASIC REJECTED None,
                                sample_row ''v2'' BASIC APPROVED (Some 5)])
     = Some (sample_row ''v1'' BASIC REJECTED None) \<and>
   status (sample_row ''v1'' BASIC REJECTED None) = REJECTED \<and>
   find_by_id ''v1'' (expireVerifications sample_env 10
                        (state_of [sample_row ''v1'' BASIC REJECTED None,
                                   sample_row ''v2'' BASIC APPROVED (Some 5)]))
     = Some (sample_row ''v1'' BASIC REJECTED None) \<and>
   (\<exists>r'. find_by_id ''v1''
            (applyVerificationResult sample_env 10 (sample_row ''v2'' BASIC APPROVED (Some 5))
               (sample_result declined [])
               (state_of [sample_row ''v1'' BASIC REJECTED None,
                          sample_row ''v2'' BASIC APPROVED (Some 5)])) = Some r' \<and>
          status r' \<noteq> EXPIRED)"
proof -
  have d: "distinct (map id_pk (kycRepo (state_of [sample_row ''v1'' BASIC REJECTED None,
                                            sample_row ''v2'' BASIC APPROVED (Some 5)])))"
    by (simp add: state_of_def sample_row_def)
  have f: "find_by_id ''v1'' (state_of [sample_row ''v1'' BASIC REJECTED None,
                                sample_row ''v2'' BASIC APPROVED (Some 5)])
     = Some (sample_row ''v1'' BASIC REJECTED None)"
    by (simp add: find_by_id_def state_of_def sample_row_def)
  have st: "status (sample_row ''v1'' BASIC REJECTED None) = REJECTED"
    by (simp add: sample_row_def)
  show ?thesis
    using d f st sweep_keeps_terminal_rows [OF d f, of sample_env 10
        "sample_row ''v2'' BASIC APPROVED (Some 5)" "sample_result declined []"]
    by simp
qed

text \<open>
  The claim as it was written fails three times: an approved provider result turns a
  REJECTED row into APPROVED, a manual review turns an EXPIRED row into APPROVED, and a
  manual review with status EXPIRED takes a PENDING row straight to EXPIRED.
\<close>

theorem terminal_status_counterexample:
  "map status
     (kycRepo (applyVerificationResult sample_env 1000 (sample_row ''v1'' BASIC REJECTED None)
                 (sample_result approved [])
                 (state_of [sample_row ''v1'' BASIC REJECTED None]))) = [APPROVED] \<and>
   map status
     (kycRepo (snd (manualReview sample_env 1000 ''v1''
                      \<lparr>reviewedBy = ''admin'', m_status = APPROVED, m_notes = None\<rparr> None
                      (state_of [sample_row ''v1'' BASIC EXPIRED (Some 5)])))) = [APPROVED] \<and>
   map status
     (kycRepo (snd (manualReview sample_env 1000 ''v1''
                      \<lparr>reviewedBy = ''admin'', m_status = EXPIRED, m_notes = None\<rparr> None
                      (state_of [sample_row ''v1'' BASIC PENDING None])))) = [EXPIRED]"
  by (simp add: applyVerificationResult_def manualReview_def review_updates_def Let_def
        repo_update_def result_updates_def find_by_id_def
        audit_def emit_def sample_result_def sample_row_def state_of_def sample_env_def)

text \<open>
  Claim C5, as the code has it. In a table whose primary keys are distinct, the expiry
  sweep selects exactly the APPROVED rows whose expiresAt is set and strictly before now
  (\<^verbatim>\<open>LessThan\<close>), sets each to EXPIRED, writes one EXPIRED audit entry for each (when the
  audit table accepts writes) and emits one EXPIRED event for each, in the order of the
  rows; running the sweep again at once changes nothing, neither rows nor audit entries
  nor events.
\<close>

theorem expireVerifications_selection_idempotent:
  assumes "distinct (map id_pk (kycRepo s))"
  shows "kycRepo (expireVerifications env now s)
           = map (\<lambda>r. if status r = APPROVED \<and> (\<exists>e. expiresAt r = Some e \<and> e < now)
                       then r\<lparr>status := EXPIRED\<rparr> else r) (kycRepo s) \<and>
         auditRepo (expireVerifications env now s)
           = auditRepo s @
             (if auditStoreUp env
              then map (\<lambda>v. \<lparr>audit_userId = userId v, audit_verificationId = Some (id_pk v),
                              action = A_EXPIRED,
                              details = ExpiredDetails (expiresAt v) (level v),
                              ipAddress = None\<rparr>)
                     (filter (\<lambda>r. status r = APPROVED \<and> (\<exists>e. expiresAt r = Some e \<and> e < now))
                        (kycRepo s))
              else []) \<and>
         emitted (expireVerifications env now s)
           = emitted s @
             map (\<lambda>v. EV_EXPIRED (userId v) (level v) (id_pk v))
               (filter (\<lambda>r. status r = APPROVED \<and> (\<exists>e. expiresAt r = Some e \<and> e < now))
                  (kycRepo s)) \<and>
         expireVerifications env now (expireVerifications env now s)
           = expireVerifications env now s"
proof -
  have sel: "sweep_filter now
               = (\<lambda>r. status r = APPROVED \<and> (\<exists>e. expiresAt r = Some e \<and> e < now))"
    by (rule ext) (rule sweep_filter_iff)
  have rows: "kycRepo (expireVerifications env now s)
           = map (\<lambda>r. if status r = APPROVED \<and> (\<exists>e. expiresAt r = Some e \<and> e < now)
                       then r\<lparr>status := EXPIRED\<rparr> else r) (kycRepo s)"
    using kycRepo_expireVerifications [OF assms, of env now] by (simp add: sweep_filter_iff)
  have log: "auditRepo (expireVerifications env now s)
           = auditRepo s @
             (if auditStoreUp env
              then map (\<lambda>v. \<lparr>audit_userId = userId v, audit_verificationId = Some (id_pk v),
                              action = A_EXPIRED,
                              details = ExpiredDetails (expiresAt v) (level v),
                              ipAddress = None\<rparr>)
                     (filter (sweep_filter now) (kycRepo s))
              else [])"
    by (simp add: expireVerifications_def auditRepo_expire_loop)
  have ev: "emitted (expireVerifications env now s)
           = emitted s @
             map (\<lambda>v. EV_EXPIRED (userId v) (level v) (id_pk v))
               (filter (sweep_filter now) (kycRepo s))"
    by (simp add: expireVerifications_def emitted_expire_loop)
  show ?thesis
    using rows log ev expireVerifications_twice [OF assms, of env now]
    unfolding sel by simp
qed

theorem expireVerifications_witness:
  "distinct (map id_pk (kycRepo (state_of [sample_row ''v1'' BASIC APPROVED (Some 10),
                                            sample_row ''v2'' BASIC APPROVED (Some 9),
                                            sample_row ''v3'' BASIC APPROVED None,
                                            sample_row ''v4'' BASIC REJECTED (Some 1)]))) \<and>
   map status (kycRepo (expireVerifications sample_env 10
                 (state_of [sample_row ''v1'' BASIC APPROVED (Some 10),
                            sample_row ''v2'' BASIC APPROVED (Some 9),
                            sample_row ''v3'' BASIC APPROVED None,
                            sample_row ''v4'' BASIC REJECTED (Some 1)])))
     = [APPROVED, EXPIRED, APPROVED, REJECTED] \<and>
   map action (auditRepo (expireVerifications sample_env 10
                 (state_of [sample_row ''v1'' BASIC APPROVED (Some 10),
                            sample_row ''v2'' BASIC APPROVED (Some 9),
                            sample_row ''v3'' BASIC APPROVED None,
                            sample_row ''v4'' BASIC REJECTED (Some 1)])))
     = [A_EXPIRED] \<and>
   emitted (expireVerifications sample_env 10
                 (state_of [sample_row ''v1'' BASIC APPROVED (Some 10),
                            sample_row ''v2'' BASIC APPROVED (Some 9),
                            sample_row ''v3'' BASIC APPROVED None,
                            sample_row ''v4'' BASIC REJECTED (Some 1)]))
     = [EV_EXPIRED ''u1'' BASIC ''v2'']"
proof -
  have d: "distinct (map id_pk (kycRepo (state_of [sample_row ''v1'' BASIC APPROVED (Some 10),
                                            sample_row ''v2'' BASIC APPROVED (Some 9),
                                            sample_row ''v3'' BASIC APPROVED None,
                                            sample_row ''v4'' BASIC REJECTED (Some 1)])))"
    by (simp add: state_of_def sample_row_def)
  show ?thesis
    using d expireVerifications_selection_idempotent [OF d, of sample_env 10]
    by (simp add: state_of_def sample_row_def sample_env_def)
qed

text \<open>
  The claim as it was written selects the rows with expiresAt at or before now. An
  APPROVED row whose expiresAt equals now is not selected: the sweep leaves the state as
  it was.
\<close>

theorem sweep_boundary_counterexample:
  "status (sample_row ''v1'' BASIC APPROVED (Some 10)) = APPROVED \<and>
   expiresAt (sample_row ''v1'' BASIC APPROVED (Some 10)) = Some 10 \<and> (10::int) \<le> 10 \<and>
   expireVerifications sample_env 10 (state_of [sample_row ''v1'' BASIC APPROVED (Some 10)])
     = state_of [sample_row ''v1'' BASIC APPROVED (Some 10)]"
  by (simp add: expireVerifications_def sweep_filter_def sample_row_def state_of_def)

section \<open>The active level\<close>

lemma unexpired_iff: "unexpired now v \<longleftrightarrow> \<not> (\<exists>e. expiresAt v = Some e \<and> e \<le> now)"
  by (auto simp: unexpired_def split: option.splits)

lemma set_find_approved:
  "set (find_approved u s) = {v \<in> set (kycRepo s). userId v = u \<and> status v = APPROVED}"
  by (auto simp: find_approved_def)

lemma sorted_find_approved:
  "sorted_wrt (\<lambda>a b. level_num (level b) \<le> level_num (level a)) (find_approved u s)"
proof -
  have "sorted (map (\<lambda>v. - int (level_num (level v))) (find_approved u s))"
    unfolding find_approved_def by (rule sorted_sort_key)
  then show ?thesis by (simp add: sorted_map)
qed

lemma first_unexpired_find:
  "first_unexpired now xs = (case find (unexpired now) xs of None \<Rightarrow> NONE | Some v \<Rightarrow> level v)"
  by (induction xs) simp_all

lemma first_unexpired_filter:
  "first_unexpired now (filter (unexpired now) xs) = first_unexpired now xs"
  by (induction xs) simp_all

lemma find_approved_filter:
  "find_approved u (s\<lparr>kycRepo := filter P (kycRepo s)\<rparr>) = filter P (find_approved u s)"
  by (simp add: find_approved_def filter_sort conj_commute)

lemma first_unexpired_upper:
  assumes "sorted_wrt (\<lambda>a b. level_num (level b) \<le> level_num (level a)) xs"
    and "v \<in> set xs" and "unexpired now v"
  shows "level_num (level v) \<le> level_num (first_unexpired now xs)"
  using assms by (induction xs) auto

lemma first_unexpired_attained:
  "first_unexpired now xs = NONE \<or>
   (\<exists>v\<in>set xs. unexpired now v \<and> level v = first_unexpired now xs)"
  by (induction xs) auto

text \<open>
  Claim C4. \<^verbatim>\<open>getActiveKycLevel\<close> goes through the user's APPROVED rows in descending
  level order and returns the level of the first whose expiresAt is null or after now,
  and NONE when there is none. The rows it goes through are exactly the user's APPROVED
  rows, sorted by descending level, so the answer is the highest level among the user's
  approved rows that have not expired. A row with expiresAt at or before now takes no
  part in the answer (the table without those rows gives the same level), although the
  lookup writes nothing and the row's stored status is still APPROVED.
\<close>

theorem getActiveKycLevel_scan:
  "getActiveKycLevel now u s
     = (case find (\<lambda>v. case expiresAt v of None \<Rightarrow> True | Some e \<Rightarrow> now < e) (find_approved u s) of
          None \<Rightarrow> NONE | Some v \<Rightarrow> level v) \<and>
   set (find_approved u s) = {v \<in> set (kycRepo s). userId v = u \<and> status v = APPROVED} \<and>
   sorted_wrt (\<lambda>a b. level_num (level b) \<le> level_num (level a)) (find_approved u s) \<and>
   (\<forall>v\<in>set (kycRepo s).
      userId v = u \<and> status v = APPROVED \<and> (expiresAt v = None \<or> (\<exists>e. expiresAt v = Some e \<and> now < e))
      \<longrightarrow> level_num (level v) \<le> level_num (getActiveKycLevel now u s)) \<and>
   (getActiveKycLevel now u s = NONE \<or>
    (\<exists>v\<in>set (kycRepo s). userId v = u \<and> status v = APPROVED \<and>
       (expiresAt v = None \<or> (\<exists>e. expiresAt v = Some e \<and> now < e)) \<and>
       level v = getActiveKycLevel now u s)) \<and>
   getActiveKycLevel now u
     (s\<lparr>kycRepo := filter (\<lambda>v. \<not> (\<exists>e. expiresAt v = Some e \<and> e \<le> now)) (kycRepo s)\<rparr>)
     = getActiveKycLevel now u s"
proof -
  have un: "unexpired now = (\<lambda>v. case expiresAt v of None \<Rightarrow> True | Some e \<Rightarrow> now < e)"
    by (rule ext) (simp add: unexpired_def)
  have un2: "\<And>v. (expiresAt v = None \<or> (\<exists>e. expiresAt v = Some e \<and> now < e)) = unexpired now v"
    by (auto simp: unexpired_def split: option.splits)
  have un3: "(\<lambda>v. \<not> (\<exists>e. expiresAt v = Some e \<and> e \<le> now)) = unexpired now"
    by (rule ext) (simp add: unexpired_iff)
  have a: "getActiveKycLevel now u s
     = (case find (\<lambda>v. case expiresAt v of None \<Rightarrow> True | Some e \<Rightarrow> now < e) (find_approved u s) of
          None \<Rightarrow> NONE | Some v \<Rightarrow> level v)"
    by (simp add: getActiveKycLevel_def first_unexpired_find un)
  have b: "\<forall>v\<in>set (kycRepo s).
      userId v = u \<and> status v = APPROVED \<and> (expiresAt v = None \<or> (\<exists>e. expiresAt v = Some e \<and> now < e))
      \<longrightarrow> level_num (level v) \<le> level_num (getActiveKycLevel now u s)"
    unfolding un2 getActiveKycLevel_def
    using first_unexpired_upper [OF sorted_find_approved, of _ u s now]
    by (simp add: set_find_approved)
  have c: "getActiveKycLevel now u s = NONE \<or>
    (\<exists>v\<in>set (kycRepo s). userId v = u \<and> status v = APPROVED \<and>
       (expiresAt v = None \<or> (\<exists>e. expiresAt v = Some e \<and> now < e)) \<and>
       level v = getActiveKycLevel now u s)"
    unfolding un2 getActiveKycLevel_def
    using first_unexpired_attained [of now "find_approved u s"]
    by (auto simp: set_find_approved)
  have d: "getActiveKycLevel now u
     (s\<lparr>kycRepo := filter (\<lambda>v. \<not> (\<exists>e. expiresAt v = Some e \<and> e \<le> now)) (kycRepo s)\<rparr>)
     = getActiveKycLevel now u s"
    unfolding un3 by (simp add: getActiveKycLevel_def find_approved_filter first_unexpired_filter)
  from a b c d set_find_approved [of u s] sorted_find_approved [of u s]
  show ?thesis by blast
qed

theorem getActiveKycLevel_scan_witness:
  "getActiveKycLevel 10 ''u1''
     (state_of [sample_row ''v1'' BASIC APPROVED (Some 11),
                sample_row ''v2'' ENHANCED APPROVED (Some 10),
                sample_row ''v3'' BASIC APPROVED None]) = BASIC \<and>
   sample_row ''v1'' BASIC APPROVED (Some 11)
     \<in> set (kycRepo (state_of [sample_row ''v1'' BASIC APPROVED (Some 11),
                sample_row ''v2'' ENHANCED APPROVED (Some 10),
                sample_row ''v3'' BASIC APPROVED None])) \<and>
   level_num (level (sample_row ''v1'' BASIC APPROVED (Some 11)))
     \<le> level_num (getActiveKycLevel 10 ''u1''
          (state_of [sample_row ''v1'' BASIC APPROVED (Some 11),
                sample_row ''v2'' ENHANCED APPROVED (Some 10),
                sample_row ''v3'' BASIC APPROVED None])) \<and>
   map status (kycRepo (state_of [sample_row ''v1'' BASIC APPROVED (Some 11),
                sample_row ''v2'' ENHANCED APPROVED (Some 10),
                sample_row ''v3'' BASIC APPROVED None])) = [APPROVED, APPROVED, APPROVED]"
  using getActiveKycLevel_scan [of 10 "''u1''"
      "state_of [sample_row ''v1'' BASIC APPROVED (Some 11),
                sample_row ''v2'' ENHANCED APPROVED (Some 10),
                sample_row ''v3'' BASIC APPROVED None]"]
  by (simp add: getActiveKycLevel_def find_approved_def unexpired_def state_of_def sample_row_def)

section \<open>The monthly limit\<close>

lemma checkMonthlyLimit_unfold:
  "checkMonthlyLimit env now u amount s =
     (let lvl = getActiveKycLevel now u s;
          limit = KYC_MONTHLY_LIMITS lvl;
          usage = getCurrentMonthUsage u;
          reached = (\<exists>l. limit = Some l \<and> usage + amount > l);
          s1 = audit env u None (if reached then A_LIMIT_EXCEEDED else A_LIMIT_CHECKED)
                 (LimitDetails lvl limit usage amount) None s
      in if reached then (Inl (ForbiddenException (MonthlyLimitReached limit)), s1)
         else (Inr \<lparr>l_level = lvl, monthlyLimitUsd = limit, currentMonthUsageUsd = usage,
                    remainingUsd = map_option (\<lambda>l. l - usage) limit,
                    isLimitReached = False\<rparr>, s1))"
  by (cases "KYC_MONTHLY_LIMITS (getActiveKycLevel now u s)")
     (simp_all add: checkMonthlyLimit_def Let_def)

text \<open>
  Claim C6. \<^verbatim>\<open>checkMonthlyLimit\<close> fails with the limit exception (a policy error)
  exactly when the limit of the active level is not null and usage + requested exceeds
  it; otherwise it returns level, limit, usage and remaining. In both branches one audit
  entry is handed to the audit table, LIMIT_EXCEEDED in the first and LIMIT_CHECKED in
  the second (it is stored when the table accepts the write); rows and events are left
  alone.
\<close>

theorem checkMonthlyLimit_outcome:
  assumes "lvl = getActiveKycLevel now u s"
    and "limit = KYC_MONTHLY_LIMITS lvl"
    and "usage = getCurrentMonthUsage u"
    and "reached = (\<exists>l. limit = Some l \<and> usage + amount > l)"
    and "res = checkMonthlyLimit env now u amount s"
  shows "(reached \<longrightarrow>
            fst res = Inl (ForbiddenException (MonthlyLimitReached limit)) \<and>
            is_PolicyError (ForbiddenException (MonthlyLimitReached limit))) \<and>
         (\<not> reached \<longrightarrow>
            fst res = Inr \<lparr>l_level = lvl, monthlyLimitUsd = limit, currentMonthUsageUsd = usage,
                           remainingUsd = map_option (\<lambda>l. l - usage) limit,
                           isLimitReached = False\<rparr>) \<and>
         auditRepo (snd res)
           = auditRepo s @
             (if auditStoreUp env
              then [\<lparr>audit_userId = u, audit_verificationId = None,
                      action = (if reached then A_LIMIT_EXCEEDED else A_LIMIT_CHECKED),
                      details = LimitDetails lvl limit usage amount, ipAddress = None\<rparr>]
              else []) \<and>
         kycRepo (snd res) = kycRepo s \<and> emitted (snd res) = emitted s"
  unfolding assms checkMonthlyLimit_unfold
  by (simp add: Let_def audit_def)

theorem checkMonthlyLimit_outcome_witness:
  "BASIC = getActiveKycLevel 10 ''u1'' (state_of [sample_row ''v1'' BASIC APPROVED (Some 11)]) \<and>
   Some 10000 = KYC_MONTHLY_LIMITS BASIC \<and> 0 = getCurrentMonthUsage ''u1'' \<and>
   fst (checkMonthlyLimit sample_env 10 ''u1'' 10000.5
          (state_of [sample_row ''v1'' BASIC APPROVED (Some 11)]))
     = Inl (ForbiddenException (MonthlyLimitReached (Some 10000))) \<and>
   map action (auditRepo (snd (checkMonthlyLimit sample_env 10 ''u1'' 10000.5
          (state_of [sample_row ''v1'' BASIC APPROVED (Some 11)])))) = [A_LIMIT_EXCEEDED] \<and>
   fst (checkMonthlyLimit sample_env 10 ''u1'' 10000
          (state_of [sample_row ''v1'' BASIC APPROVED (Some 11)]))
     = Inr \<lparr>l_level = BASIC, monthlyLimitUsd = Some 10000, currentMonthUsageUsd = 0,
            remainingUsd = Some 10000, isLimitReached = False\<rparr> \<and>
   map action (auditRepo (snd (checkMonthlyLimit sample_env 10 ''u1'' 10000
          (state_of [sample_row ''v1'' BASIC APPROVED (Some 11)])))) = [A_LIMIT_CHECKED]"
proof -
  have l: "BASIC = getActiveKycLevel 10 ''u1'' (state_of [sample_row ''v1'' BASIC APPROVED (Some 11)])"
    by (simp add: getActiveKycLevel_def find_approved_def unexpired_def state_of_def sample_row_def)
  have m: "Some 10000 = KYC_MONTHLY_LIMITS BASIC" by simp
  have z: "0 = getCurrentMonthUsage ''u1''" by (simp add: getCurrentMonthUsage_def)
  show ?thesis
    using l m z
      checkMonthlyLimit_outcome [where amount = "10000.5" and env = sample_env, OF l m z refl refl]
      checkMonthlyLimit_outcome [where amount = 10000 and env = sample_env, OF l m z refl refl]
    by (simp add: sample_env_def state_of_def)
qed

text \<open>
  Claim C9. The usage lookup returns 0 for every user, so \<^verbatim>\<open>checkMonthlyLimit\<close>
  rejects a request exactly when the requested amount alone exceeds the limit of the
  active level.
\<close>

theorem usage_placeholder:
  "getCurrentMonthUsage u = 0 \<and>
   ((\<exists>e. fst (checkMonthlyLimit env now u amount s) = Inl e)
      \<longleftrightarrow> (\<exists>l. KYC_MONTHLY_LIMITS (getActiveKycLevel now u s) = Some l \<and> l < amount))"
  unfolding checkMonthlyLimit_unfold
  by (simp add: Let_def getCurrentMonthUsage_def)

theorem usage_placeholder_witness:
  "getActiveKycLevel 10 ''u1'' (state_of []) = NONE \<and>
   fst (checkMonthlyLimit sample_env 10 ''u1'' 500 (state_of []))
     = Inr \<lparr>l_level = NONE, monthlyLimitUsd = Some 1000, currentMonthUsageUsd = 0,
            remainingUsd = Some 1000, isLimitReached = False\<rparr> \<and>
   (\<exists>e. fst (checkMonthlyLimit sample_env 10 ''u1'' 1001 (state_of [])) = Inl e)"
proof -
  have l: "getActiveKycLevel 10 ''u1'' (state_of []) = NONE"
    by (simp add: getActiveKycLevel_def find_approved_def state_of_def)
  have a: "fst (checkMonthlyLimit sample_env 10 ''u1'' 500 (state_of []))
     = Inr \<lparr>l_level = NONE, monthlyLimitUsd = Some 1000, currentMonthUsageUsd = 0,
            remainingUsd = Some 1000, isLimitReached = False\<rparr>"
    by (simp add: checkMonthlyLimit_def Let_def l getCurrentMonthUsage_def)
  show ?thesis
    using l a usage_placeholder [of "''u1''" sample_env 10 1001 "state_of []"]
    by simp
qed

section \<open>Initiating a verification\<close>

lemma not_policy_persona_exn [simp]: "\<not> is_PolicyError (persona_exn e)"
  by (cases e) simp_all

lemma not_policy_onfido_exn [simp]: "\<not> is_PolicyError (onfido_exn e)"
  by (cases e) simp_all

lemma resumeKyc_no_policy_error:
  "fst (resumeKyc env ex s) = Inl e \<Longrightarrow> \<not> is_PolicyError e"
  by (auto simp: resumeKyc_def resumeInquiry_def Let_def split: option.splits if_splits sum.splits)

lemma startKyc_create_no_policy_error:
  "fst (startKyc_create env u dto ip newId s) = Inl e \<Longrightarrow> \<not> is_PolicyError e"
  by (auto simp: startKyc_create_def createInquiry_def createApplicantSession_def Let_def
           split: option.splits if_splits sum.splits prod.splits)

lemma startKyc_existing_no_policy_error:
  "fst (startKyc_existing env u dto ip newId s) = Inl e \<Longrightarrow> \<not> is_PolicyError e"
  by (auto simp: startKyc_existing_def split: option.splits if_splits
           dest: resumeKyc_no_policy_error startKyc_create_no_policy_error)

lemma getApprovedVerification_None:
  "getApprovedVerification u l s = None
     \<longleftrightarrow> \<not> (\<exists>v\<in>set (kycRepo s). userId v = u \<and> level v = l \<and> status v = APPROVED)"
  by (auto simp: getApprovedVerification_def find_None_iff)

lemma startKyc_reaches_existing:
  assumes "targetLevel dto \<noteq> NONE"
    and "targetLevel dto = ENHANCED \<longrightarrow>
           (\<exists>v\<in>set (kycRepo s). userId v = u \<and> level v = BASIC \<and> status v = APPROVED)"
  shows "startKyc env u dto ip newId s = startKyc_existing env u dto ip newId s"
proof (cases "targetLevel dto")
  case NONE
  with assms(1) show ?thesis by simp
next
  case BASIC
  then show ?thesis by (simp add: startKyc_def)
next
  case ENHANCED
  with assms(2) have "getApprovedVerification u BASIC s \<noteq> None"
    by (simp add: getApprovedVerification_None)
  with ENHANCED show ?thesis by (auto simp: startKyc_def)
qed

lemma filter_fresh_id:
  assumes "newId \<notin> id_pk ` set rs"
  shows "filter (\<lambda>r. id_pk r \<noteq> newId) rs = rs"
  using assms by (induction rs) auto

lemma id_pk_new_verification [simp]: "id_pk (new_verification newId u l p n) = newId"
  by (simp add: new_verification_def)

lemma startKyc_create_failure:
  assumes "newId \<notin> id_pk ` set (kycRepo s)"
    and "(dto_provider dto \<noteq> Some ONFIDO \<and>
          persona_inquiries env u (targetLevel dto)
            (if truthy (redirectUrl dto) then redirectUrl dto else None) = Inl pe \<and>
          err = persona_exn pe) \<or>
         (dto_provider dto = Some ONFIDO \<and> onfido_sessions env u = Inl pe \<and>
          err = onfido_exn pe)"
  shows "fst (startKyc_create env u dto ip newId s) = Inl err \<and>
         kycRepo (snd (startKyc_create env u dto ip newId s)) = kycRepo s \<and>
         auditRepo (snd (startKyc_create env u dto ip newId s)) = auditRepo s \<and>
         emitted (snd (startKyc_create env u dto ip newId s)) = emitted s"
  using assms(2)
proof
  assume p: "dto_provider dto \<noteq> Some ONFIDO \<and>
          persona_inquiries env u (targetLevel dto)
            (if truthy (redirectUrl dto) then redirectUrl dto else None) = Inl pe \<and>
          err = persona_exn pe"
  then have prov: "(case dto_provider dto of None \<Rightarrow> PERSONA | Some p \<Rightarrow> p) = PERSONA"
    by (cases "dto_provider dto") (auto intro: KycProvider.exhaust)
  show ?thesis
    using p prov
    by (simp add: startKyc_create_def createInquiry_def repo_delete_def Let_def
          filter_fresh_id [OF assms(1)])
next
  assume p: "dto_provider dto = Some ONFIDO \<and> onfido_sessions env u = Inl pe \<and>
          err = onfido_exn pe"
  show ?thesis
    using p
    by (simp add: startKyc_create_def createApplicantSession_def repo_delete_def Let_def
          filter_fresh_id [OF assms(1)])
qed

text \<open>
  Claim C2, as the code has it. \<^verbatim>\<open>startKyc\<close> with target level ENHANCED fails with the
  prerequisite exception (a policy error) exactly when the user has no BASIC row with
  status APPROVED; expiresAt is not looked at. Without such a row the call returns that
  error and leaves the state alone; with such a row the prerequisite check passes and
  the call goes on to the resume-or-create step.
\<close>

theorem startKyc_enhanced_prerequisite:
  assumes "targetLevel dto = ENHANCED"
  shows "((\<exists>e. fst (startKyc env u dto ip newId s) = Inl e \<and> is_PolicyError e)
            \<longleftrightarrow> \<not> (\<exists>v\<in>set (kycRepo s). userId v = u \<and> level v = BASIC \<and> status v = APPROVED)) \<and>
         (\<not> (\<exists>v\<in>set (kycRepo s). userId v = u \<and> level v = BASIC \<and> status v = APPROVED)
            \<longrightarrow> startKyc env u dto ip newId s
                  = (Inl (BadRequestException (PrerequisiteRequired ENHANCED BASIC)), s)) \<and>
         ((\<exists>v\<in>set (kycRepo s). userId v = u \<and> level v = BASIC \<and> status v = APPROVED)
            \<longrightarrow> startKyc env u dto ip newId s = startKyc_existing env u dto ip newId s)"
proof (cases "getApprovedVerification u BASIC s")
  case None
  then have no: "\<not> (\<exists>v\<in>set (kycRepo s). userId v = u \<and> level v = BASIC \<and> status v = APPROVED)"
    by (simp add: getApprovedVerification_None)
  have "startKyc env u dto ip newId s
          = (Inl (BadRequestException (PrerequisiteRequired ENHANCED BASIC)), s)"
    using assms None by (simp add: startKyc_def)
  with no show ?thesis by auto
next
  case (Some v)
  then have yes: "\<exists>v\<in>set (kycRepo s). userId v = u \<and> level v = BASIC \<and> status v = APPROVED"
    using getApprovedVerification_None [of u BASIC s] by auto
  have eq: "startKyc env u dto ip newId s = startKyc_existing env u dto ip newId s"
    using assms Some by (simp add: startKyc_def)
  have "\<not> (\<exists>e. fst (startKyc env u dto ip newId s) = Inl e \<and> is_PolicyError e)"
    unfolding eq using startKyc_existing_no_policy_error by blast
  with yes eq show ?thesis by auto
qed

theorem startKyc_enhanced_prerequisite_witness:
  "targetLevel (sample_dto ENHANCED None) = ENHANCED \<and>
   sample_row ''v1'' BASIC APPROVED None
     \<in> set (kycRepo (state_of [sample_row ''v1'' BASIC APPROVED None])) \<and>
   \<not> (\<exists>e. fst (startKyc sample_env ''u1'' (sample_dto ENHANCED None) None ''new''
                  (state_of [sample_row ''v1'' BASIC APPROVED None])) = Inl e \<and>
            is_PolicyError e) \<and>
   startKyc sample_env ''u1'' (sample_dto ENHANCED None) None ''new'' (state_of [])
     = (Inl (BadRequestException (PrerequisiteRequired ENHANCED BASIC)), state_of [])"
proof -
  have t: "targetLevel (sample_dto ENHANCED None) = ENHANCED"
    by (simp add: sample_dto_def)
  show ?thesis
    using t
      startKyc_enhanced_prerequisite [OF t, of sample_env "''u1''" None "''new''"
        "state_of [sample_row ''v1'' BASIC APPROVED None]"]
      startKyc_enhanced_prerequisite [OF t, of sample_env "''u1''" None "''new''" "state_of []"]
    by (simp add: state_of_def sample_row_def)
qed

text \<open>
  The claim as it was written asks for a BASIC row that has not expired. The user's only
  BASIC row is APPROVED with expiresAt 5, in the past of any later instant such as 10,
  and the ENHANCED verification starts all the same: \<^verbatim>\<open>startKyc\<close> never reads the clock.
\<close>

theorem expired_prerequisite_counterexample:
  "kycRepo (state_of [sample_row ''v1'' BASIC APPROVED (Some 5)])
     = [sample_row ''v1'' BASIC APPROVED (Some 5)] \<and>
   expiresAt (sample_row ''v1'' BASIC APPROVED (Some 5)) = Some 5 \<and> (5::int) < 10 \<and>
   fst (startKyc sample_env ''u1'' (sample_dto ENHANCED None) None ''new''
          (state_of [sample_row ''v1'' BASIC APPROVED (Some 5)]))
     = Inr \<lparr>verificationRecordId = ''new'', resp_inquiryId = ''inq_9'',
            resp_sessionToken = ''tok_9'',
            widgetUrl = ''https://withpersona.com/verify?inquiry-id=inq_9&session-token=tok_9''\<rparr>"
  by (simp add: startKyc_def startKyc_existing_def startKyc_create_def getApprovedVerification_def
        createInquiry_def truthy_def persona_widget_url_def Let_def
        state_of_def sample_row_def sample_env_def sample_dto_def)

text \<open>
  Claim C8. When \<^verbatim>\<open>startKyc\<close> takes the creating branch (target level not NONE,
  prerequisite met, no PENDING row with an inquiry id found) and the provider's session
  call fails, the provider's error is the result and the row just inserted is deleted
  again: with a fresh primary key for the new row, the table is what it was before the
  call, and no audit entry or event was written.
\<close>

theorem startKyc_provider_failure_rolls_back:
  assumes "newId \<notin> id_pk ` set (kycRepo s)"
    and "targetLevel dto \<noteq> NONE"
    and "targetLevel dto = ENHANCED \<longrightarrow>
           (\<exists>v\<in>set (kycRepo s). userId v = u \<and> level v = BASIC \<and> status v = APPROVED)"
    and "case find (\<lambda>v. userId v = u \<and> level v = targetLevel dto \<and> status v = PENDING)
                (kycRepo s) of
           None \<Rightarrow> True | Some existing \<Rightarrow> \<not> truthy (inquiryId existing)"
    and "(dto_provider dto \<noteq> Some ONFIDO \<and>
          persona_inquiries env u (targetLevel dto)
            (if truthy (redirectUrl dto) then redirectUrl dto else None) = Inl pe \<and>
          err = persona_exn pe) \<or>
         (dto_provider dto = Some ONFIDO \<and> onfido_sessions env u = Inl pe \<and>
          err = onfido_exn pe)"
  shows "fst (startKyc env u dto ip newId s) = Inl err \<and>
         kycRepo (snd (startKyc env u dto ip newId s)) = kycRepo s \<and>
         auditRepo (snd (startKyc env u dto ip newId s)) = auditRepo s \<and>
         emitted (snd (startKyc env u dto ip newId s)) = emitted s"
proof -
  have "startKyc env u dto ip newId s = startKyc_existing env u dto ip newId s"
    using assms(2,3) by (rule startKyc_reaches_existing)
  also have "\<dots> = startKyc_create env u dto ip newId s"
    using assms(4) by (simp add: startKyc_existing_def split: option.splits)
  finally show ?thesis
    using startKyc_create_failure [OF assms(1) assms(5)] by simp
qed

theorem startKyc_provider_failure_witness:
  "''new'' \<notin> id_pk ` set (kycRepo (state_of [sample_row ''v1'' BASIC REJECTED None])) \<and>
   startKyc (sample_env\<lparr>persona_inquiries := (\<lambda>u l r. Inl (ApiError ''boom''))\<rparr>) ''u1''
       (sample_dto BASIC None) None ''new'' (state_of [sample_row ''v1'' BASIC REJECTED None])
     = (Inl (BadRequestException (PersonaApiError ''boom'')),
        (state_of [sample_row ''v1'' BASIC REJECTED None])
          \<lparr>outbound := [PersonaCreateInquiry ''u1'' BASIC None]\<rparr>) \<and>
   startKyc (sample_env\<lparr>onfido_sessions := (\<lambda>u. Inl (CallFailed ''timeout''))\<rparr>) ''u1''
       (sample_dto BASIC (Some ONFIDO)) None ''new''
       (state_of [sample_row ''v1'' BASIC REJECTED None])
     = (Inl (FetchFailed ''timeout''),
        (state_of [sample_row ''v1'' BASIC REJECTED None])
          \<lparr>outbound := [OnfidoCreateApplicantSession ''u1'']\<rparr>)"
proof -
  let ?s = "state_of [sample_row ''v1'' BASIC REJECTED None]"
  let ?penv = "sample_env\<lparr>persona_inquiries := (\<lambda>u l r. Inl (ApiError ''boom''))\<rparr>"
  let ?oenv = "sample_env\<lparr>onfido_sessions := (\<lambda>u. Inl (CallFailed ''timeout''))\<rparr>"
  have fresh: "''new'' \<notin> id_pk ` set (kycRepo ?s)"
    by (simp add: state_of_def sample_row_def)
  have lvl: "targetLevel (sample_dto BASIC p) \<noteq> NONE" for p
    by (simp add: sample_dto_def)
  have pre: "targetLevel (sample_dto BASIC p) = ENHANCED \<longrightarrow>
           (\<exists>v\<in>set (kycRepo ?s). userId v = ''u1'' \<and> level v = BASIC \<and> status v = APPROVED)" for p
    by (simp add: sample_dto_def)
  have nopending:
    "case find (\<lambda>v. userId v = ''u1'' \<and> level v = targetLevel (sample_dto BASIC p) \<and>
                      status v = PENDING) (kycRepo ?s) of
       None \<Rightarrow> True | Some existing \<Rightarrow> \<not> truthy (inquiryId existing)" for p
    by (simp add: state_of_def sample_row_def sample_dto_def)
  have pfail:
    "(dto_provider (sample_dto BASIC None) \<noteq> Some ONFIDO \<and>
      persona_inquiries ?penv ''u1'' (targetLevel (sample_dto BASIC None))
        (if truthy (redirectUrl (sample_dto BASIC None))
         then redirectUrl (sample_dto BASIC None) else None) = Inl (ApiError ''boom'') \<and>
      BadRequestException (PersonaApiError ''boom'') = persona_exn (ApiError ''boom'')) \<or>
     (dto_provider (sample_dto BASIC None) = Some ONFIDO \<and>
      onfido_sessions ?penv ''u1'' = Inl (ApiError ''boom'') \<and>
      BadRequestException (PersonaApiError ''boom'') = onfido_exn (ApiError ''boom''))"
    by (simp add: sample_dto_def)
  have ofail:
    "(dto_provider (sample_dto BASIC (Some ONFIDO)) \<noteq> Some ONFIDO \<and>
      persona_inquiries ?oenv ''u1'' (targetLevel (sample_dto BASIC (Some ONFIDO)))
        (if truthy (redirectUrl (sample_dto BASIC (Some ONFIDO)))
         then redirectUrl (sample_dto BASIC (Some ONFIDO)) else None)
        = Inl (CallFailed ''timeout'') \<and>
      FetchFailed ''timeout'' = persona_exn (CallFailed ''timeout'')) \<or>
     (dto_provider (sample_dto BASIC (Some ONFIDO)) = Some ONFIDO \<and>
      onfido_sessions ?oenv ''u1'' = Inl (CallFailed ''timeout'') \<and>
      FetchFailed ''timeout'' = onfido_exn (CallFailed ''timeout''))"
    by (simp add: sample_dto_def)
  have pout: "outbound (snd (startKyc ?penv ''u1'' (sample_dto BASIC None) None ''new'' ?s))
                = [PersonaCreateInquiry ''u1'' BASIC None]"
    by (simp add: startKyc_def startKyc_existing_def startKyc_create_def createInquiry_def
          repo_delete_def truthy_def Let_def state_of_def sample_row_def sample_dto_def)
  have oout: "outbound (snd (startKyc ?oenv ''u1'' (sample_dto BASIC (Some ONFIDO)) None ''new'' ?s))
                = [OnfidoCreateApplicantSession ''u1'']"
    by (simp add: startKyc_def startKyc_existing_def startKyc_create_def
          createApplicantSession_def repo_delete_def truthy_def Let_def state_of_def
          sample_row_def sample_dto_def)
  show ?thesis
    using fresh pout oout
      startKyc_provider_failure_rolls_back [OF fresh lvl pre nopending pfail, of None]
      startKyc_provider_failure_rolls_back [OF fresh lvl pre nopending ofail, of None]
    by (simp add: state_of_def prod_eq_iff kyc_state.equality)
qed

text \<open>
  Claim C10. When \<^verbatim>\<open>startKyc\<close> finds a PENDING row with a non-empty inquiry id, it
  resumes it through Persona whatever the row's stored provider is (and whatever
  provider the request names): the one outbound call is Persona's resume of the stored
  inquiry id; when it answers with a token the response carries a Persona widget URL
  built from inquiry id and token and the row's session token is replaced; when it
  fails, Persona's error is the result.
\<close>

theorem resume_goes_through_persona:
  assumes "targetLevel dto \<noteq> NONE"
    and "targetLevel dto = ENHANCED \<longrightarrow>
           (\<exists>v\<in>set (kycRepo s). userId v = u \<and> level v = BASIC \<and> status v = APPROVED)"
    and "find (\<lambda>v. userId v = u \<and> level v = targetLevel dto \<and> status v = PENDING) (kycRepo s)
           = Some existing"
    and "inquiryId existing = Some iid" and "iid \<noteq> []"
  shows "startKyc env u dto ip newId s = resumeKyc env existing s \<and>
         resumeKyc env (existing\<lparr>provider := p\<rparr>) s = resumeKyc env existing s \<and>
         outbound (snd (startKyc env u dto ip newId s)) = outbound s @ [PersonaResumeInquiry iid] \<and>
         (\<forall>tok. persona_resume env iid = Inr tok \<longrightarrow>
            fst (startKyc env u dto ip newId s)
              = Inr \<lparr>verificationRecordId = id_pk existing, resp_inquiryId = iid,
                     resp_sessionToken = tok,
                     widgetUrl = ''https://withpersona.com/verify?inquiry-id='' @ iid @
                                 ''&session-token='' @ tok\<rparr> \<and>
            kycRepo (snd (startKyc env u dto ip newId s))
              = map (\<lambda>r. if id_pk r = id_pk existing then r\<lparr>sessionToken := Some tok\<rparr> else r)
                  (kycRepo s)) \<and>
         (\<forall>pe. persona_resume env iid = Inl pe \<longrightarrow>
            fst (startKyc env u dto ip newId s) = Inl (persona_exn pe) \<and>
            kycRepo (snd (startKyc env u dto ip newId s)) = kycRepo s)"
proof -
  have "startKyc env u dto ip newId s = startKyc_existing env u dto ip newId s"
    using assms(1,2) by (rule startKyc_reaches_existing)
  also have "\<dots> = resumeKyc env existing s"
    using assms(3,4,5) by (simp add: startKyc_existing_def truthy_def)
  finally have eq: "startKyc env u dto ip newId s = resumeKyc env existing s" .
  show ?thesis
    unfolding eq using assms(4,5)
    by (cases "persona_resume env iid")
       (simp_all add: resumeKyc_def resumeInquiry_def repo_update_def persona_widget_url_def Let_def)
qed

theorem resume_goes_through_persona_witness:
  "find (\<lambda>v. userId v = ''u1'' \<and> level v = BASIC \<and> status v = PENDING)
     (kycRepo (state_of [(sample_row ''v1'' BASIC PENDING None)\<lparr>provider := ONFIDO\<rparr>]))
     = Some ((sample_row ''v1'' BASIC PENDING None)\<lparr>provider := ONFIDO\<rparr>) \<and>
   provider ((sample_row ''v1'' BASIC PENDING None)\<lparr>provider := ONFIDO\<rparr>) = ONFIDO \<and>
   inquiryId ((sample_row ''v1'' BASIC PENDING None)\<lparr>provider := ONFIDO\<rparr>) = Some ''inq_1'' \<and>
   outbound (snd (startKyc sample_env ''u1'' (sample_dto BASIC (Some ONFIDO)) None ''new''
                    (state_of [(sample_row ''v1'' BASIC PENDING None)\<lparr>provider := ONFIDO\<rparr>])))
     = [PersonaResumeInquiry ''inq_1''] \<and>
   fst (startKyc sample_env ''u1'' (sample_dto BASIC (Some ONFIDO)) None ''new''
          (state_of [(sample_row ''v1'' BASIC PENDING None)\<lparr>provider := ONFIDO\<rparr>]))
     = Inr \<lparr>verificationRecordId = ''v1'', resp_inquiryId = ''inq_1'', resp_sessionToken = ''tok_2'',
            widgetUrl = ''https://withpersona.com/verify?inquiry-id=inq_1&session-token=tok_2''\<rparr> \<and>
   fst (startKyc (sample_env\<lparr>persona_resume := (\<lambda>i. Inl (ApiError ''Record not found''))\<rparr>) ''u1''
          (sample_dto BASIC (Some ONFIDO)) None ''new''
          (state_of [(sample_row ''v1'' BASIC PENDING None)\<lparr>provider := ONFIDO\<rparr>]))
     = Inl (BadRequestException (PersonaApiError ''Record not found''))"
proof -
  let ?row = "(sample_row ''v1'' BASIC PENDING None)\<lparr>provider := ONFIDO\<rparr>"
  let ?dto = "sample_dto BASIC (Some ONFIDO)"
  let ?fenv = "sample_env\<lparr>persona_resume := (\<lambda>i. Inl (ApiError ''Record not found''))\<rparr>"
  have lvl: "targetLevel ?dto \<noteq> NONE" by (simp add: sample_dto_def)
  have pre: "targetLevel ?dto = ENHANCED \<longrightarrow>
           (\<exists>v\<in>set (kycRepo (state_of [?row])).
              userId v = ''u1'' \<and> level v = BASIC \<and> status v = APPROVED)"
    by (simp add: sample_dto_def)
  have ex: "find (\<lambda>v. userId v = ''u1'' \<and> level v = targetLevel ?dto \<and> status v = PENDING)
              (kycRepo (state_of [?row])) = Some ?row"
    by (simp add: state_of_def sample_row_def sample_dto_def)
  have iid: "inquiryId ?row = Some ''inq_1''" by (simp add: sample_row_def)
  have ne: "''inq_1'' \<noteq> []" by simp
  have ok: "persona_resume sample_env ''inq_1'' = Inr ''tok_2''" by (simp add: sample_env_def)
  have ko: "persona_resume ?fenv ''inq_1'' = Inl (ApiError ''Record not found'')" by simp
  have prov: "provider ?row = ONFIDO" by simp
  show ?thesis
    using ex iid prov ok ko
      conjunct2 [OF conjunct2 [OF resume_goes_through_persona
        [OF lvl pre ex iid ne, of sample_env None "''new''" PERSONA]]]
      conjunct2 [OF conjunct2 [OF resume_goes_through_persona
        [OF lvl pre ex iid ne, of ?fenv None "''new''" PERSONA]]]
    by (simp add: state_of_def sample_row_def sample_dto_def)
qed

section \<open>The Persona webhook signature\<close>

lemma timingSafeEqual_eq:
  "(case timingSafeEqual a b of None \<Rightarrow> False | Some r \<Rightarrow> r) = (a = b)"
  by (auto simp: timingSafeEqual_def)

lemma verifyWebhookSignature_iff:
  "verifyWebhookSignature env now body hdr \<longleftrightarrow>
     (\<exists>ts sg. from_entries_get (map key_value (split_on CHR '','' hdr)) ''t'' = Some ts \<and>
              from_entries_get (map key_value (split_on CHR '','' hdr)) ''v1'' = Some sg \<and>
              ts \<noteq> [] \<and> sg \<noteq> [] \<and> \<not> too_old now ts \<and>
              hex_decode (hmac_sha256_hex env (webhookSecret env) (ts @ ''.'' @ body))
                = hex_decode sg)"
  by (auto simp: verifyWebhookSignature_def Let_def timingSafeEqual_eq split: option.splits)

text \<open>
  Claim C7. A Persona signature header whose timestamp entry parses to a time more than
  300 seconds before now is rejected by \<^verbatim>\<open>verifyWebhookSignature\<close> for every body,
  every secret and every HMAC function, hence also when the signature entry is the valid
  HMAC: the age test comes before the comparison and does not depend on it. Every
  rejected delivery, whatever made the check fail, gets the same answer from
  \<^verbatim>\<open>processPersonaWebhook\<close>: the one exception \<^verbatim>\<open>Invalid webhook signature\<close>, with the
  state untouched.
\<close>

theorem stale_persona_webhook_rejected:
  assumes "from_entries_get (map key_value (split_on CHR '','' hdr)) ''t'' = Some ts"
    and "parseInt10 ts = Some t"
    and "real_of_int now / 1000 - real_of_int t > 300"
  shows "\<not> verifyWebhookSignature env now body hdr \<and>
         (\<forall>now' body' hdr' payload' s.
            \<not> verifyWebhookSignature env now' body' hdr' \<longrightarrow>
            processPersonaWebhook env now' body' hdr' payload' s
              = (Inl (BadRequestException InvalidWebhookSignature), s))"
proof -
  have "too_old now ts" using assms(2,3) by (simp add: too_old_def)
  with assms(1) have "\<not> verifyWebhookSignature env now body hdr"
    by (simp add: verifyWebhookSignature_iff)
  then show ?thesis by (simp add: processPersonaWebhook_def)
qed

theorem stale_persona_webhook_witness:
  "from_entries_get (map key_value (split_on CHR '','' ''t=1000,v1=c0ffee'')) ''t'' = Some ''1000'' \<and>
   parseInt10 ''1000'' = Some 1000 \<and>
   real_of_int 1300001 / 1000 - real_of_int 1000 > 300 \<and>
   hmac_sha256_hex sample_env (webhookSecret sample_env) (''1000'' @ ''.'' @ ''body'') = ''c0ffee'' \<and>
   verifyWebhookSignature sample_env 1300000 ''body'' ''t=1000,v1=c0ffee'' \<and>
   \<not> verifyWebhookSignature sample_env 1300001 ''body'' ''t=1000,v1=c0ffee'' \<and>
   \<not> verifyWebhookSignature sample_env 1300000 ''body'' ''t=1000,v1=c0ffef'' \<and>
   \<not> verifyWebhookSignature sample_env 1300000 ''body'' ''v1=c0ffee'' \<and>
   processPersonaWebhook sample_env 1300001 ''body'' ''t=1000,v1=c0ffee'' None (state_of [])
     = (Inl (BadRequestException InvalidWebhookSignature), state_of []) \<and>
   processPersonaWebhook sample_env 1300000 ''body'' ''t=1000,v1=c0ffef'' None (state_of [])
     = (Inl (BadRequestException InvalidWebhookSignature), state_of []) \<and>
   processPersonaWebhook sample_env 1300000 ''body'' ''v1=c0ffee'' None (state_of [])
     = (Inl (BadRequestException InvalidWebhookSignature), state_of [])"
proof -
  have a: "from_entries_get (map key_value (split_on CHR '','' ''t=1000,v1=c0ffee'')) ''t'' = Some ''1000''"
    by (simp add: from_entries_get_def key_value_def)
  have b: "parseInt10 ''1000'' = Some 1000"
    by (simp add: parseInt10_def is_space_def is_digit_def digits_value_def)
  have c: "real_of_int 1300001 / 1000 - real_of_int 1000 > 300" by simp
  have ok: "verifyWebhookSignature sample_env 1300000 ''body'' ''t=1000,v1=c0ffee''"
    by (simp add: verifyWebhookSignature_def Let_def from_entries_get_def key_value_def
          too_old_def parseInt10_def is_space_def is_digit_def digits_value_def
          timingSafeEqual_def hex_digit_def sample_env_def)
  have bad: "\<not> verifyWebhookSignature sample_env 1300000 ''body'' ''t=1000,v1=c0ffef''"
    by (simp add: verifyWebhookSignature_def Let_def from_entries_get_def key_value_def
          too_old_def parseInt10_def is_space_def is_digit_def digits_value_def
          timingSafeEqual_def hex_digit_def sample_env_def)
  have missing: "\<not> verifyWebhookSignature sample_env 1300000 ''body'' ''v1=c0ffee''"
    by (simp add: verifyWebhookSignature_def Let_def from_entries_get_def key_value_def)
  have mac: "hmac_sha256_hex sample_env (webhookSecret sample_env) (''1000'' @ ''.'' @ ''body'')
               = ''c0ffee''"
    by (simp add: sample_env_def)
  show ?thesis
    using a b c mac ok bad missing
      stale_persona_webhook_rejected [OF a b c, of sample_env "''body''"]
    by simp
qed

section \<open>Primary keys stay distinct\<close>

text \<open>
  The theorems on the sweep assume distinct primary keys. No operation changes a
  primary key, and \<^verbatim>\<open>startKyc\<close> adds at most the one key the database generates, so
  the assumption holds in every state reached from the empty table with fresh keys.
\<close>

lemma ids_repo_update:
  assumes "\<And>r. id_pk (f r) = id_pk r"
  shows "map id_pk (kycRepo (repo_update i f s)) = map id_pk (kycRepo s)"
  using assms by (simp add: repo_update_def comp_def)

lemma id_pk_review_updates [simp]: "id_pk (review_updates now dto r) = id_pk r"
  by (simp add: review_updates_def Let_def split: option.splits)

lemma ids_applyVerificationResult:
  "map id_pk (kycRepo (applyVerificationResult env now v res s)) = map id_pk (kycRepo s)"
  by (simp add: kycRepo_applyVerificationResult ids_repo_update)

lemma ids_manualReview:
  "map id_pk (kycRepo (snd (manualReview env now vId dto ip s))) = map id_pk (kycRepo s)"
  by (simp add: manualReview_def Let_def ids_repo_update split: option.splits)

lemma ids_expireVerifications:
  "map id_pk (kycRepo (expireVerifications env now s)) = map id_pk (kycRepo s)"
  by (simp add: expireVerifications_def kycRepo_expire_loop comp_def)

lemma ids_checkMonthlyLimit:
  "kycRepo (snd (checkMonthlyLimit env now u amount s)) = kycRepo s"
  by (simp add: checkMonthlyLimit_def Let_def)

lemma ids_processPersonaWebhook:
  "map id_pk (kycRepo (snd (processPersonaWebhook env now body hdr payload s)))
     = map id_pk (kycRepo s)"
  by (simp add: processPersonaWebhook_def Let_def ids_applyVerificationResult
           split: option.splits)

lemma ids_resumeKyc:
  "map id_pk (kycRepo (snd (resumeKyc env ex s))) = map id_pk (kycRepo s)"
  by (auto simp: resumeKyc_def resumeInquiry_def Let_def repo_update_def comp_def
           split: option.splits sum.splits)

lemma ids_startKyc_create:
  assumes "newId \<notin> id_pk ` set (kycRepo s)"
  shows "map id_pk (kycRepo (snd (startKyc_create env u dto ip newId s)))
           \<in> {map id_pk (kycRepo s), map id_pk (kycRepo s) @ [newId]}"
  using assms
  by (auto simp: startKyc_create_def createInquiry_def createApplicantSession_def Let_def
        initiated_def repo_update_def repo_delete_def comp_def filter_fresh_id
        split: sum.splits prod.splits)

lemma ids_startKyc:
  assumes "newId \<notin> id_pk ` set (kycRepo s)"
  shows "map id_pk (kycRepo (snd (startKyc env u dto ip newId s)))
           \<in> {map id_pk (kycRepo s), map id_pk (kycRepo s) @ [newId]}"
  using ids_startKyc_create [OF assms, of env u dto ip] ids_resumeKyc [of env _ s]
  by (auto simp: startKyc_def startKyc_existing_def split: option.splits)

lemma distinct_ids_startKyc:
  assumes "distinct (map id_pk (kycRepo s))" and "newId \<notin> id_pk ` set (kycRepo s)"
  shows "distinct (map id_pk (kycRepo (snd (startKyc env u dto ip newId s))))"
  using ids_startKyc [OF assms(2), of env u dto ip] assms by auto

end
